theory Spec2Isabelle
  imports Main
begin

section \<open>JavaScript values\<close>

text \<open>
  The client handles parsed JSON. A value of type \<open>json\<close> is a defined, parsed JSON
  value; \<open>json option\<close> is a JavaScript value, with \<open>None\<close> for \<open>undefined\<close>.
  Numbers are restricted to the safe integers, of absolute value at most \<open>2^53\<close>, which a
  double represents exactly and JavaScript prints digit by digit: no operation modelled
  here depends on a fractional part or on a larger number. An object is an association
  list whose first binding of a key is the one read.
\<close>

datatype json =
    JNull
  | JBool bool
  | JNum int
  | JStr string
  | JArr "json list"
  | JObj "(string \<times> json) list"

type_synonym obj = "(string \<times> json) list"

fun truthy :: "json \<Rightarrow> bool" where
  "truthy JNull = False"
| "truthy (JBool b) = b"
| "truthy (JNum n) = (n \<noteq> 0)"
| "truthy (JStr s) = (s \<noteq> [])"
| "truthy (JArr xs) = True"
| "truthy (JObj kvs) = True"

fun truthy_val :: "json option \<Rightarrow> bool" where
  "truthy_val None = False"
| "truthy_val (Some v) = truthy v"

text \<open>\<open>a || b\<close> on JavaScript values.\<close>

definition js_or :: "json option \<Rightarrow> json option \<Rightarrow> json option" where
  "js_or a b = (if truthy_val a then a else b)"

text \<open>
  \<open>v.k\<close> for a value \<open>v\<close> that is not \<open>null\<close>: the binding of an object, \<open>undefined\<close>
  for every other value (none of the property names read by the client is a built-in
  property of a string, number, boolean or array). Reading a property of \<open>null\<close> raises a
  TypeError; each caller below tests for \<open>JNull\<close> before it uses \<open>jprop\<close>.
\<close>

fun jprop :: "json \<Rightarrow> string \<Rightarrow> json option" where
  "jprop (JObj kvs) k = map_of kvs k"
| "jprop v k = None"

text \<open>\<open>v?.k\<close>: \<open>undefined\<close> when \<open>v\<close> is \<open>undefined\<close> or \<open>null\<close>.\<close>

fun opt_prop :: "json option \<Rightarrow> string \<Rightarrow> json option" where
  "opt_prop None k = None"
| "opt_prop (Some JNull) k = None"
| "opt_prop (Some v) k = jprop v k"

subsection \<open>Conversion to text\<close>

definition digit_char :: "nat \<Rightarrow> char" where
  "digit_char d = ''0123456789'' ! d"

text \<open>The decimal digits of a natural number, as \<open>'' + n\<close> gives them for an integer.\<close>

fun string_of_nat :: "nat \<Rightarrow> string" where
  "string_of_nat n =
     (if n < 10 then [digit_char n]
      else string_of_nat (n div 10) @ [digit_char (n mod 10)])"

declare string_of_nat.simps [simp del]

fun join_with :: "string \<Rightarrow> string list \<Rightarrow> string" where
  "join_with sep [] = []"
| "join_with sep [x] = x"
| "join_with sep (x # y # ys) = x @ sep @ join_with sep (y # ys)"

text \<open>
  What a template literal \<open>`${v}`\<close> inserts for a defined value: a string as it is, a
  number in decimal, an array as its elements joined by commas (\<open>null\<close> elements as the
  empty string), an object as \<open>[object Object]\<close>.
\<close>

fun js_string :: "json \<Rightarrow> string" where
  "js_string JNull = ''null''"
| "js_string (JBool b) = (if b then ''true'' else ''false'')"
| "js_string (JNum n) = (if n < 0 then ''-'' @ string_of_nat (nat (- n)) else string_of_nat (nat n))"
| "js_string (JStr s) = s"
| "js_string (JArr xs) = join_with '','' (map (\<lambda>x. if x = JNull then [] else js_string x) xs)"
| "js_string (JObj kvs) = ''[object Object]''"

fun js_text :: "json option \<Rightarrow> string" where
  "js_text None = ''undefined''"
| "js_text (Some v) = js_string v"

section \<open>The browser's localStorage\<close>

text \<open>
  localStorage maps keys to strings. The client keeps three plain strings (\<open>token\<close>,
  \<open>backendMode\<close> and, serialised, \<open>currentUser\<close>), the serialised \<open>users\<close> list of the
  offline accounts, and one serialised collection per key \<open><kind>_<userId>\<close>. Each
  serialised entry is represented by the value it parses to; an absent key is \<open>None\<close>.
  The collection keys all contain an underscore, so they never meet the four fixed keys.
  Collections are written by this client only, as arrays of objects.
\<close>

record storage =
  token :: "string option"
  currentUser :: "json option"
  backendMode :: "string option"
  users :: "obj list option"
  collections :: "string \<Rightarrow> obj list option"

definition isOfflineMode :: "storage \<Rightarrow> bool" where
  "isOfflineMode s = (backendMode s = Some ''offline'')"

datatype js_error =
    AxiosError "string option" string "(nat \<times> json) option"
  | PlainError string
  | HttpFailure nat json
  | TypeError

text \<open>
  \<open>AxiosError code message response\<close> is the error axios rejects with: its \<open>code\<close> (or none),
  its \<open>message\<close>, and the status and body of the response when the server answered.
  \<open>PlainError m\<close> is \<open>new Error(m)\<close>. \<open>HttpFailure status body\<close> is the \<open>new Error\<close> that
  \<open>createIncome\<close> and \<open>createExpense\<close> raise for a server answer: its message is a text
  computed from the status and the body, which is not modelled. \<open>TypeError\<close> is a property
  read on \<open>null\<close> or a call of a method the value does not have.
\<close>

fun error_code :: "js_error \<Rightarrow> string option" where
  "error_code (AxiosError c m resp) = c"
| "error_code e = None"

fun error_response :: "js_error \<Rightarrow> (nat \<times> json) option" where
  "error_response (AxiosError c m resp) = resp"
| "error_response e = None"

fun message_is :: "js_error \<Rightarrow> string \<Rightarrow> bool" where
  "message_is (AxiosError c m resp) t = (m = t)"
| "message_is (PlainError m) t = (m = t)"
| "message_is e t = False"

text \<open>The test \<open>error.code === 'ERR_NETWORK' || error.message === 'Network Error'\<close>.\<close>

definition is_network_error :: "js_error \<Rightarrow> bool" where
  "is_network_error e = (error_code e = Some ''ERR_NETWORK'' \<or> message_is e ''Network Error'')"

text \<open>
  getUserId: the \<open>id\<close> of the stored user, else its \<open>email\<close>; \<open>offline_user\<close> when no user
  is stored.
\<close>

definition getUserId :: "storage \<Rightarrow> js_error + json option" where
  "getUserId s =
     (case currentUser s of
        None \<Rightarrow> Inr (Some (JStr ''offline_user''))
      | Some JNull \<Rightarrow> Inl TypeError
      | Some u \<Rightarrow> Inr (js_or (jprop u ''id'') (jprop u ''email'')))"

text \<open>\<open>JSON.parse(localStorage.getItem(key) || '[]')\<close>\<close>

definition load :: "storage \<Rightarrow> string \<Rightarrow> obj list" where
  "load s key = (case collections s key of None \<Rightarrow> [] | Some xs \<Rightarrow> xs)"

definition save :: "string \<Rightarrow> obj list \<Rightarrow> storage \<Rightarrow> storage" where
  "save key xs s = s\<lparr>collections := (collections s)(key \<mapsto> xs)\<rparr>"

definition coll_key :: "string \<Rightarrow> json option \<Rightarrow> string" where
  "coll_key kind uid = kind @ ''_'' @ js_text uid"

section \<open>The axios instance (config/axiosConfig)\<close>

datatype http_method = GET | POST | PUT | DELETE

type_synonym request = "http_method \<times> string"

text \<open>
  What the network does with one request is an input of the model: the server answers
  with a status and a parsed body, or axios rejects with an error.
\<close>

datatype remote_outcome =
    Resolved nat json
  | Rejected "string option" string "(nat \<times> json) option"

text \<open>
  The response interceptor runs on every rejected request before the caller sees the
  error. (The redirect to \<open>/\<close> after a 401 is outside the model, and so is the
  request interceptor, which adds the stored token to the headers of every request but
  those to \<open>/login\<close> and \<open>/register\<close>.)
\<close>

definition response_interceptor ::
  "string option \<Rightarrow> string \<Rightarrow> (nat \<times> json) option \<Rightarrow> storage \<Rightarrow> storage" where
  "response_interceptor code msg resp s =
     (let status = map_option fst resp in
      if status = Some 401 then
        s\<lparr>token := None, currentUser := None, backendMode := Some ''offline''\<rparr>
      else if status = Some 403 then s
      else if status = Some 500 then s
      else if code = Some ''ECONNABORTED'' \<or> msg = ''Network Error'' then
        s\<lparr>backendMode := Some ''offline''\<rparr>
      else s)"

definition axios_request :: "remote_outcome \<Rightarrow> storage \<Rightarrow> (js_error + nat \<times> json) \<times> storage" where
  "axios_request r s =
     (case r of
        Resolved status body \<Rightarrow> (Inr (status, body), s)
      | Rejected code msg resp \<Rightarrow> (Inl (AxiosError code msg resp), response_interceptor code msg resp s))"

text \<open>
  An operation returns what the caller sees (a value, or the error it throws), the
  storage it leaves, and the requests it sent through axios, in order.
\<close>

type_synonym 'a outcome = "(js_error + 'a) \<times> storage \<times> request list"

definition with_request :: "request \<Rightarrow> 'a outcome \<Rightarrow> 'a outcome" where
  "with_request q out = (case out of (res, s, qs) \<Rightarrow> (res, s, q # qs))"

section \<open>The data access functions (services/apiService)\<close>

subsection \<open>Listing\<close>

text \<open>
  \<open>const data = response.data.<kind> || response.data.data || response.data;
  return Array.isArray(data) ? data : []\<close>
\<close>

definition list_from_body :: "string \<Rightarrow> json \<Rightarrow> js_error + json list" where
  "list_from_body kind body =
     (if body = JNull then Inl TypeError
      else
        (case js_or (js_or (jprop body kind) (jprop body ''data'')) (Some body) of
           Some (JArr xs) \<Rightarrow> Inr xs
         | _ \<Rightarrow> Inr []))"

text \<open>The \<open>try\<close> block of a listing function: the request, then the normalisation.\<close>

definition list_try :: "string \<Rightarrow> remote_outcome \<Rightarrow> storage \<Rightarrow> (js_error + json list) \<times> storage" where
  "list_try kind r s =
     (case axios_request r s of
        (Inr (status, body), s1) \<Rightarrow> (list_from_body kind body, s1)
      | (Inl e, s1) \<Rightarrow> (Inl e, s1))"

text \<open>Reading a collection of the local store, as both branches of a listing function do.\<close>

definition local_list :: "string \<Rightarrow> storage \<Rightarrow> (js_error + json list) \<times> storage" where
  "local_list kind s =
     (case getUserId s of
        Inl e \<Rightarrow> (Inl e, s)
      | Inr uid \<Rightarrow> (Inr (map JObj (load s (coll_key kind uid))), s))"

definition fetchIncomes :: "remote_outcome \<Rightarrow> storage \<Rightarrow> json list outcome" where
  "fetchIncomes r s =
     (if isOfflineMode s then
        (case local_list ''incomes'' s of (res, s1) \<Rightarrow> (res, s1, []))
      else
        (case list_try ''incomes'' r s of
           (Inr xs, s1) \<Rightarrow> (Inr xs, s1, [(GET, ''/incomes'')])
         | (Inl e, s1) \<Rightarrow>
             if is_network_error e then
               (case local_list ''incomes'' (s1\<lparr>backendMode := Some ''offline''\<rparr>) of
                  (res, s2) \<Rightarrow> (res, s2, [(GET, ''/incomes'')]))
             else (Inl e, s1, [(GET, ''/incomes'')])))"

definition fetchExpenses :: "remote_outcome \<Rightarrow> storage \<Rightarrow> json list outcome" where
  "fetchExpenses r s =
     (if isOfflineMode s then
        (case local_list ''expenses'' s of (res, s1) \<Rightarrow> (res, s1, []))
      else
        (case list_try ''expenses'' r s of
           (Inr xs, s1) \<Rightarrow> (Inr xs, s1, [(GET, ''/expenses'')])
         | (Inl e, s1) \<Rightarrow>
             if is_network_error e then
               (case local_list ''expenses'' (s1\<lparr>backendMode := Some ''offline''\<rparr>) of
                  (res, s2) \<Rightarrow> (res, s2, [(GET, ''/expenses'')]))
             else (Inl e, s1, [(GET, ''/expenses'')])))"

definition defaultCategories :: "obj list" where
  "defaultCategories =
     [[(''id'', JStr ''1''), (''name'', JStr ''Salary''), (''type'', JStr ''income''), (''color'', JStr ''#10b981'')],
      [(''id'', JStr ''2''), (''name'', JStr ''Freelance''), (''type'', JStr ''income''), (''color'', JStr ''#34d399'')],
      [(''id'', JStr ''3''), (''name'', JStr ''Investment''), (''type'', JStr ''income''), (''color'', JStr ''#6ee7b7'')],
      [(''id'', JStr ''4''), (''name'', JStr ''Food''), (''type'', JStr ''expense''), (''color'', JStr ''#ef4444'')],
      [(''id'', JStr ''5''), (''name'', JStr ''Transport''), (''type'', JStr ''expense''), (''color'', JStr ''#f87171'')],
      [(''id'', JStr ''6''), (''name'', JStr ''Entertainment''), (''type'', JStr ''expense''), (''color'', JStr ''#fca5a5'')],
      [(''id'', JStr ''7''), (''name'', JStr ''Bills''), (''type'', JStr ''expense''), (''color'', JStr ''#dc2626'')]]"

text \<open>
  fetchCategories calls itself once after a network error, having set the mode to
  \<open>offline\<close>; the recursion ends because the second call takes the local branch.
\<close>

function fetchCategories :: "remote_outcome \<Rightarrow> storage \<Rightarrow> json list outcome" where
  "fetchCategories r s =
     (if isOfflineMode s then
        (case getUserId s of
           Inl e \<Rightarrow> (Inl e, s, [])
         | Inr uid \<Rightarrow>
             (let categories = load s (coll_key ''categories'' uid) in
              if length categories = 0 then
                (Inr (map JObj defaultCategories),
                 save (coll_key ''categories'' uid) defaultCategories s, [])
              else (Inr (map JObj categories), s, [])))
      else
        (case list_try ''categories'' r s of
           (Inr xs, s1) \<Rightarrow> (Inr xs, s1, [(GET, ''/categories'')])
         | (Inl e, s1) \<Rightarrow>
             if is_network_error e then
               with_request (GET, ''/categories'')
                 (fetchCategories r (s1\<lparr>backendMode := Some ''offline''\<rparr>))
             else (Inl e, s1, [(GET, ''/categories'')])))"
  by pat_completeness auto
termination
  by (relation "measure (\<lambda>(r, s). if isOfflineMode s then 0 else 1)")
     (auto simp: isOfflineMode_def)

declare fetchCategories.simps [simp del]

text \<open>filterTransactions has no local branch, and its \<open>catch\<close> rethrows every error.\<close>

definition filterTransactions :: "json \<Rightarrow> remote_outcome \<Rightarrow> storage \<Rightarrow> json list outcome" where
  "filterTransactions filters r s =
     (case list_try ''transactions'' r s of
        (res, s1) \<Rightarrow> (res, s1, [(POST, ''/filter'')]))"

subsection \<open>Creating\<close>

text \<open>
  The argument of createIncome and createExpense, as its TypeScript type has it. A
  \<open>categoryId\<close> of 0 is the falsy one.
\<close>

record transaction_input =
  tx_name :: "string option"
  categoryId :: int
  amount :: int
  date :: string
  description :: "string option"

definition opt_field :: "string \<Rightarrow> string option \<Rightarrow> obj" where
  "opt_field k v = (case v of None \<Rightarrow> [] | Some t \<Rightarrow> [(k, JStr t)])"

definition transaction_fields :: "transaction_input \<Rightarrow> obj" where
  "transaction_fields t =
     opt_field ''name'' (tx_name t)
     @ [(''categoryId'', JNum (categoryId t)), (''amount'', JNum (amount t)), (''date'', JStr (date t))]
     @ opt_field ''description'' (description t)"

definition missingFields :: "transaction_input \<Rightarrow> string list" where
  "missingFields t =
     (if categoryId t = 0 then [''category''] else [])
     @ (if amount t = 0 \<or> amount t \<le> 0 then [''amount''] else [])
     @ (if date t = [] then [''date''] else [])"

definition validation_error :: "transaction_input \<Rightarrow> js_error" where
  "validation_error t = PlainError (''Missing required fields: '' @ join_with '', '' (missingFields t))"

text \<open>
  The local branch of a create function: read the collection, append
  \<open>{ id: prefix + Date.now(), ...input }\<close>, write the collection back, return the new
  record. The typed arguments have no \<open>id\<close> field, so the spread never replaces the id.
\<close>

definition local_create ::
  "string \<Rightarrow> string \<Rightarrow> obj \<Rightarrow> nat \<Rightarrow> storage \<Rightarrow> (js_error + obj) \<times> storage" where
  "local_create kind prefix flds now s =
     (case getUserId s of
        Inl e \<Rightarrow> (Inl e, s)
      | Inr uid \<Rightarrow>
          (let items = load s (coll_key kind uid);
               new = (''id'', JStr (prefix @ string_of_nat now)) # flds
           in (Inr new, save (coll_key kind uid) (items @ [new]) s)))"

text \<open>\<open>{ ...v }\<close>: the own enumerable properties of a value.\<close>

fun spread :: "json \<Rightarrow> obj" where
  "spread (JObj kvs) = kvs"
| "spread (JArr xs) = zip (map string_of_nat [0..<length xs]) xs"
| "spread (JStr cs) = zip (map string_of_nat [0..<length cs]) (map (\<lambda>c. JStr [c]) cs)"
| "spread v = []"

text \<open>
  \<open>{ ...o, k: v }\<close>: a key that \<open>o\<close> has keeps its place and gets the value, a new key
  comes last. A property whose value is \<open>undefined\<close> reads as an absent one and is left
  out when the object is serialised.
\<close>

definition with_field :: "obj \<Rightarrow> string \<Rightarrow> json option \<Rightarrow> obj" where
  "with_field kvs k v =
     (case v of
        None \<Rightarrow> filter (\<lambda>(k', _). k' \<noteq> k) kvs
      | Some w \<Rightarrow>
          if k \<in> fst ` set kvs then map (\<lambda>(k', w'). if k' = k then (k, w) else (k', w')) kvs
          else kvs @ [(k, w)])"

text \<open>The \<open>try\<close> block of createIncome and createExpense.\<close>

definition create_try ::
  "transaction_input \<Rightarrow> remote_outcome \<Rightarrow> storage \<Rightarrow> (js_error + obj) \<times> storage" where
  "create_try t r s =
     (case axios_request r s of
        (Inr (status, body), s1) \<Rightarrow>
          (if body = JNull then (Inl TypeError, s1)
           else
             (Inr (with_field (spread body) ''name''
                     (js_or (jprop body ''name'') (map_option JStr (tx_name t)))), s1))
      | (Inl e, s1) \<Rightarrow> (Inl e, s1))"

text \<open>
  The message of a TypeError is the engine's own text; this one stands for it. It is
  neither empty nor \<open>Network Error\<close>.
\<close>

definition type_error_message :: string where
  "type_error_message = ''Cannot read properties of null''"

text \<open>
  What the \<open>catch\<close> of createIncome throws for an error that is not a network error: a
  new Error for a server answer, else a new Error with the message of the one caught.
\<close>

fun income_rethrow :: "js_error \<Rightarrow> js_error" where
  "income_rethrow (AxiosError c m (Some (status, body))) = HttpFailure status body"
| "income_rethrow (AxiosError c m None) =
     PlainError (if m = [] then ''Failed to save income to database. Please try again.'' else m)"
| "income_rethrow (PlainError m) =
     PlainError (if m = [] then ''Failed to save income to database. Please try again.'' else m)"
| "income_rethrow TypeError = PlainError type_error_message"
| "income_rethrow e = e"

definition createIncome ::
  "transaction_input \<Rightarrow> remote_outcome \<Rightarrow> nat \<Rightarrow> storage \<Rightarrow> obj outcome" where
  "createIncome income r now s =
     (if categoryId income = 0 \<or> amount income \<le> 0 \<or> date income = [] then
        (Inl (validation_error income), s, [])
      else if isOfflineMode s then
        (case local_create ''incomes'' ''inc_'' (transaction_fields income) now s of
           (res, s1) \<Rightarrow> (res, s1, []))
      else
        (case create_try income r s of
           (Inr v, s1) \<Rightarrow> (Inr v, s1, [(POST, ''/incomes'')])
         | (Inl e, s1) \<Rightarrow>
             if is_network_error e then
               (case local_create ''incomes'' ''inc_'' (transaction_fields income) now
                       (s1\<lparr>backendMode := Some ''offline''\<rparr>) of
                  (res, s2) \<Rightarrow> (res, s2, [(POST, ''/incomes'')]))
             else (Inl (income_rethrow e), s1, [(POST, ''/incomes'')])))"

text \<open>The \<open>catch\<close> of createExpense rethrows the error caught when there is no server answer.\<close>

fun expense_rethrow :: "js_error \<Rightarrow> js_error" where
  "expense_rethrow (AxiosError c m (Some (status, body))) = HttpFailure status body"
| "expense_rethrow e = e"

definition createExpense ::
  "transaction_input \<Rightarrow> remote_outcome \<Rightarrow> nat \<Rightarrow> storage \<Rightarrow> obj outcome" where
  "createExpense expense r now s =
     (if categoryId expense = 0 \<or> amount expense \<le> 0 \<or> date expense = [] then
        (Inl (validation_error expense), s, [])
      else if isOfflineMode s then
        (case local_create ''expenses'' ''exp_'' (transaction_fields expense) now s of
           (res, s1) \<Rightarrow> (res, s1, []))
      else
        (case create_try expense r s of
           (Inr v, s1) \<Rightarrow> (Inr v, s1, [(POST, ''/expenses'')])
         | (Inl e, s1) \<Rightarrow>
             if is_network_error e then
               (case local_create ''expenses'' ''exp_'' (transaction_fields expense) now
                       (s1\<lparr>backendMode := Some ''offline''\<rparr>) of
                  (res, s2) \<Rightarrow> (res, s2, [(POST, ''/expenses'')]))
             else (Inl (expense_rethrow e), s1, [(POST, ''/expenses'')])))"

text \<open>The argument of createCategory: a Category without its id.\<close>

record category_input =
  cat_name :: string
  cat_type :: string
  cat_color :: "string option"

definition category_fields :: "category_input \<Rightarrow> obj" where
  "category_fields c =
     [(''name'', JStr (cat_name c)), (''type'', JStr (cat_type c))] @ opt_field ''color'' (cat_color c)"

function createCategory ::
  "category_input \<Rightarrow> remote_outcome \<Rightarrow> nat \<Rightarrow> storage \<Rightarrow> json outcome" where
  "createCategory category r now s =
     (if isOfflineMode s then
        (case local_create ''categories'' ''cat_'' (category_fields category) now s of
           (res, s1) \<Rightarrow> (map_sum id JObj res, s1, []))
      else
        (case axios_request r s of
           (Inr (status, body), s1) \<Rightarrow> (Inr body, s1, [(POST, ''/categories'')])
         | (Inl e, s1) \<Rightarrow>
             if is_network_error e then
               with_request (POST, ''/categories'')
                 (createCategory category r now (s1\<lparr>backendMode := Some ''offline''\<rparr>))
             else (Inl e, s1, [(POST, ''/categories'')])))"
  by pat_completeness auto
termination
  by (relation "measure (\<lambda>(c, r, now, s). if isOfflineMode s then 0 else 1)")
     (auto simp: isOfflineMode_def)

declare createCategory.simps [simp del]

subsection \<open>Updating\<close>

text \<open>
  The three update functions send the request and return the body; they read no mode
  and catch no error.
\<close>

definition updateIncome :: "string \<Rightarrow> json \<Rightarrow> remote_outcome \<Rightarrow> storage \<Rightarrow> json outcome" where
  "updateIncome ident income r s =
     (case axios_request r s of
        (Inr (status, body), s1) \<Rightarrow> (Inr body, s1, [(PUT, ''/incomes/'' @ ident)])
      | (Inl e, s1) \<Rightarrow> (Inl e, s1, [(PUT, ''/incomes/'' @ ident)]))"

definition updateExpense :: "string \<Rightarrow> json \<Rightarrow> remote_outcome \<Rightarrow> storage \<Rightarrow> json outcome" where
  "updateExpense ident expense r s =
     (case axios_request r s of
        (Inr (status, body), s1) \<Rightarrow> (Inr body, s1, [(PUT, ''/expenses/'' @ ident)])
      | (Inl e, s1) \<Rightarrow> (Inl e, s1, [(PUT, ''/expenses/'' @ ident)]))"

definition updateCategory :: "string \<Rightarrow> json \<Rightarrow> remote_outcome \<Rightarrow> storage \<Rightarrow> json outcome" where
  "updateCategory ident category r s =
     (case axios_request r s of
        (Inr (status, body), s1) \<Rightarrow> (Inr body, s1, [(PUT, ''/categories/'' @ ident)])
      | (Inl e, s1) \<Rightarrow> (Inl e, s1, [(PUT, ''/categories/'' @ ident)]))"

subsection \<open>Deleting\<close>

text \<open>
  The local branch of a delete function: keep the records \<open>x\<close> with \<open>x.id !== id\<close>, write
  the collection back, return \<open>{ success: true }\<close>.
\<close>

definition local_delete :: "string \<Rightarrow> string \<Rightarrow> storage \<Rightarrow> json outcome" where
  "local_delete kind ident s =
     (case getUserId s of
        Inl e \<Rightarrow> (Inl e, s, [])
      | Inr uid \<Rightarrow>
          (let items = load s (coll_key kind uid);
               filtered = filter (\<lambda>x. map_of x ''id'' \<noteq> Some (JStr ident)) items
           in (Inr (JObj [(''success'', JBool True)]), save (coll_key kind uid) filtered s, [])))"

function deleteIncome :: "string \<Rightarrow> remote_outcome \<Rightarrow> storage \<Rightarrow> json outcome" where
  "deleteIncome ident r s =
     (if isOfflineMode s then local_delete ''incomes'' ident s
      else
        (case axios_request r s of
           (Inr (status, body), s1) \<Rightarrow> (Inr body, s1, [(DELETE, ''/incomes/'' @ ident)])
         | (Inl e, s1) \<Rightarrow>
             if is_network_error e then
               with_request (DELETE, ''/incomes/'' @ ident)
                 (deleteIncome ident r (s1\<lparr>backendMode := Some ''offline''\<rparr>))
             else (Inl e, s1, [(DELETE, ''/incomes/'' @ ident)])))"
  by pat_completeness auto
termination
  by (relation "measure (\<lambda>(i, r, s). if isOfflineMode s then 0 else 1)")
     (auto simp: isOfflineMode_def)

function deleteExpense :: "string \<Rightarrow> remote_outcome \<Rightarrow> storage \<Rightarrow> json outcome" where
  "deleteExpense ident r s =
     (if isOfflineMode s then local_delete ''expenses'' ident s
      else
        (case axios_request r s of
           (Inr (status, body), s1) \<Rightarrow> (Inr body, s1, [(DELETE, ''/expenses/'' @ ident)])
         | (Inl e, s1) \<Rightarrow>
             if is_network_error e then
               with_request (DELETE, ''/expenses/'' @ ident)
                 (deleteExpense ident r (s1\<lparr>backendMode := Some ''offline''\<rparr>))
             else (Inl e, s1, [(DELETE, ''/expenses/'' @ ident)])))"
  by pat_completeness auto
termination
  by (relation "measure (\<lambda>(i, r, s). if isOfflineMode s then 0 else 1)")
     (auto simp: isOfflineMode_def)

function deleteCategory :: "string \<Rightarrow> remote_outcome \<Rightarrow> storage \<Rightarrow> json outcome" where
  "deleteCategory ident r s =
     (if isOfflineMode s then local_delete ''categories'' ident s
      else
        (case axios_request r s of
           (Inr (status, body), s1) \<Rightarrow> (Inr body, s1, [(DELETE, ''/categories/'' @ ident)])
         | (Inl e, s1) \<Rightarrow>
             if is_network_error e then
               with_request (DELETE, ''/categories/'' @ ident)
                 (deleteCategory ident r (s1\<lparr>backendMode := Some ''offline''\<rparr>))
             else (Inl e, s1, [(DELETE, ''/categories/'' @ ident)])))"
  by pat_completeness auto
termination
  by (relation "measure (\<lambda>(i, r, s). if isOfflineMode s then 0 else 1)")
     (auto simp: isOfflineMode_def)

declare deleteIncome.simps [simp del]
declare deleteExpense.simps [simp del]
declare deleteCategory.simps [simp del]

section \<open>Signing in (components/Login, components/Register)\<close>

text \<open>
  The four response formats, tried in order. Each test asks for a truthy token and a
  truthy user; when none passes, \<open>token\<close> and \<open>user\<close> keep their initial \<open>null\<close>.
\<close>

definition extract_auth :: "json \<Rightarrow> json option \<times> json option" where
  "extract_auth d =
     (if truthy_val (jprop d ''token'') \<and> truthy_val (jprop d ''user'') then
        (jprop d ''token'', jprop d ''user'')
      else if truthy_val (jprop d ''success'') \<and> truthy_val (jprop d ''token'')
              \<and> truthy_val (opt_prop (jprop d ''data'') ''user'') then
        (jprop d ''token'', opt_prop (jprop d ''data'') ''user'')
      else if truthy_val (jprop d ''accessToken'') \<and> truthy_val (jprop d ''user'') then
        (jprop d ''accessToken'', jprop d ''user'')
      else if truthy_val (opt_prop (jprop d ''data'') ''token'')
              \<and> truthy_val (opt_prop (jprop d ''data'') ''user'') then
        (opt_prop (jprop d ''data'') ''token'', opt_prop (jprop d ''data'') ''user'')
      else (Some JNull, Some JNull))"

text \<open>App.handleLogin and App.handleRegister store the user once more.\<close>

definition handleLogin :: "json option \<Rightarrow> storage \<Rightarrow> storage" where
  "handleLogin user s = s\<lparr>currentUser := user\<rparr>"

text \<open>
  The inner \<open>try\<close> block of both forms, from the request to the call of \<open>onLogin\<close> or
  \<open>onRegister\<close>; \<open>fallback_user\<close> is the user the form builds from its own fields.
  \<open>token.substring\<close> is called before anything is stored, and only a string has it.
\<close>

definition auth_try ::
  "json \<Rightarrow> remote_outcome \<Rightarrow> storage \<Rightarrow> (js_error + json option \<times> string) \<times> storage" where
  "auth_try fallback_user r s =
     (case axios_request r s of
        (Inl e, s1) \<Rightarrow> (Inl e, s1)
      | (Inr (status, body), s1) \<Rightarrow>
          if body = JNull then (Inl TypeError, s1)
          else
            (case extract_auth body of
               (tok, usr) \<Rightarrow>
                 if \<not> truthy_val tok then (Inl (PlainError ''Invalid response from server''), s1)
                 else
                   (let usr' = (if \<not> truthy_val usr then Some fallback_user else usr) in
                    case tok of
                      Some (JStr t) \<Rightarrow>
                        (Inr (usr', t),
                         handleLogin usr'
                           (s1\<lparr>token := Some t, currentUser := usr', backendMode := Some ''online''\<rparr>))
                    | _ \<Rightarrow> (Inl TypeError, s1))))"

text \<open>
  What a form does in the end: it calls \<open>onLogin\<close>/\<open>onRegister\<close> with a user and a token,
  or it shows a message.
\<close>

datatype auth_result =
    Authenticated "json option" string
  | AuthError "json option"

definition load_users :: "storage \<Rightarrow> obj list" where
  "load_users s = (case users s of None \<Rightarrow> [] | Some us \<Rightarrow> us)"

text \<open>\<open>data?.message || data?.error || data?.msg || fallback\<close>\<close>

definition server_message :: "json \<Rightarrow> string \<Rightarrow> json option" where
  "server_message body fallback =
     js_or (js_or (js_or (opt_prop (Some body) ''message'') (opt_prop (Some body) ''error''))
                  (opt_prop (Some body) ''msg''))
           (Some (JStr fallback))"

text \<open>The test of the inner \<open>catch\<close> that sends an error to the offline accounts.\<close>

definition goes_offline :: "js_error \<Rightarrow> bool" where
  "goes_offline e = (is_network_error e \<or> error_response e = None)"

definition login_handleSubmit ::
  "string \<Rightarrow> string \<Rightarrow> remote_outcome \<Rightarrow> nat \<Rightarrow> storage \<Rightarrow> auth_result \<times> storage \<times> request list" where
  "login_handleSubmit email password r now s =
     (if email = [] \<or> password = [] then
        (AuthError (Some (JStr ''Please fill in all fields'')), s, [])
      else
        (case auth_try
                (JObj [(''email'', JStr email),
                       (''username'', JStr (takeWhile (\<lambda>c. c \<noteq> CHR ''@'') email))]) r s of
           (Inr (user, t), s1) \<Rightarrow> (Authenticated user t, s1, [(POST, ''/login'')])
         | (Inl e, s1) \<Rightarrow>
             if goes_offline e then
               (case find (\<lambda>u. map_of u ''email'' = Some (JStr email)
                              \<and> map_of u ''password'' = Some (JStr password)) (load_users s1) of
                  Some u \<Rightarrow>
                    (let offlineToken = ''offline_'' @ string_of_nat now;
                         userWithoutPassword = Some (JObj (with_field u ''password'' None))
                     in (Authenticated userWithoutPassword offlineToken,
                         handleLogin userWithoutPassword
                           (s1\<lparr>token := Some offlineToken, currentUser := userWithoutPassword,
                               backendMode := Some ''offline''\<rparr>),
                         [(POST, ''/login'')]))
                | None \<Rightarrow>
                    (AuthError (Some (JStr
                       ''Invalid email or password. (Offline Mode - Create an account first)'')),
                     s1, [(POST, ''/login'')]))
             else
               (AuthError (server_message (case error_response e of Some (st, body) \<Rightarrow> body | None \<Rightarrow> JNull)
                             ''Invalid email or password''),
                s1, [(POST, ''/login'')])))"

text \<open>
  Register reads the clock twice in its offline branch: for the id of the new account and
  for the offline token.
\<close>

definition register_handleSubmit ::
  "string \<Rightarrow> string \<Rightarrow> string \<Rightarrow> string \<Rightarrow> remote_outcome \<Rightarrow> nat \<Rightarrow> nat \<Rightarrow> storage
     \<Rightarrow> auth_result \<times> storage \<times> request list" where
  "register_handleSubmit username email password confirmPassword r now now' s =
     (if username = [] \<or> email = [] \<or> password = [] \<or> confirmPassword = [] then
        (AuthError (Some (JStr ''Please fill in all fields'')), s, [])
      else if password \<noteq> confirmPassword then
        (AuthError (Some (JStr ''Passwords do not match'')), s, [])
      else if length password < 6 then
        (AuthError (Some (JStr ''Password must be at least 6 characters'')), s, [])
      else
        (case auth_try (JObj [(''email'', JStr email), (''username'', JStr username)]) r s of
           (Inr (user, t), s1) \<Rightarrow> (Authenticated user t, s1, [(POST, ''/register'')])
         | (Inl e, s1) \<Rightarrow>
             if goes_offline e then
               (if list_ex (\<lambda>u. map_of u ''email'' = Some (JStr email)) (load_users s1) then
                  (AuthError (Some (JStr ''Email already exists'')), s1, [(POST, ''/register'')])
                else
                  (let newUser = [(''id'', JStr (''user_'' @ string_of_nat now)),
                                  (''username'', JStr username), (''email'', JStr email),
                                  (''password'', JStr password)];
                       s2 = s1\<lparr>users := Some (load_users s1 @ [newUser])\<rparr>;
                       offlineToken = ''offline_'' @ string_of_nat now';
                       userWithoutPassword = Some (JObj (with_field newUser ''password'' None))
                   in (Authenticated userWithoutPassword offlineToken,
                       handleLogin userWithoutPassword
                         (s2\<lparr>token := Some offlineToken, currentUser := userWithoutPassword,
                             backendMode := Some ''offline''\<rparr>),
                       [(POST, ''/register'')])))
             else
               (AuthError (server_message (case error_response e of Some (st, body) \<Rightarrow> body | None \<Rightarrow> JNull)
                             ''Registration failed. Email may already exist.''),
                s1, [(POST, ''/register'')])))"

section \<open>The category form (components/CategoryPage)\<close>

text \<open>A Category as the interface in App declares it.\<close>

record category =
  c_id :: string
  c_name :: string
  c_type :: string
  c_color :: string

text \<open>
  handleSubmit of the form, given the categories the page shows. \<open>addCategory\<close> in App
  calls createCategory and rethrows its error; the form shows
  \<open>err.response?.data?.message\<close> or a fixed text.

  The form calls two built-in methods of JavaScript strings, \<open>toLowerCase\<close> and \<open>trim\<close>,
  which are no code of this repository and act on the whole of Unicode. They are
  parameters of the model: what is proved of the form holds whatever the two do.
\<close>

definition category_handleSubmit ::
  "(string \<Rightarrow> string) \<Rightarrow> (string \<Rightarrow> string) \<Rightarrow> category list \<Rightarrow> string \<Rightarrow> string
     \<Rightarrow> remote_outcome \<Rightarrow> nat \<Rightarrow> storage
     \<Rightarrow> (json option + json) \<times> storage \<times> request list" where
  "category_handleSubmit toLowerCase trim categories name type r now s =
     (if trim name = [] then (Inl (Some (JStr ''Please enter a category name'')), s, [])
      else if list_ex (\<lambda>cat. toLowerCase (c_name cat) = toLowerCase name \<and> c_type cat = type)
                categories then
        (Inl (Some (JStr ''A category with this name already exists for this type'')), s, [])
      else
        (case createCategory \<lparr>cat_name = name, cat_type = type, cat_color = None\<rparr> r now s of
           (Inr v, s1, qs) \<Rightarrow> (Inr v, s1, qs)
         | (Inl e, s1, qs) \<Rightarrow>
             (Inl (js_or (case error_response e of
                            Some (st, body) \<Rightarrow> opt_prop (Some body) ''message''
                          | None \<Rightarrow> None)
                         (Some (JStr ''Failed to add category. Please try again.''))),
              s1, qs)))"

section \<open>The operations as one family\<close>

text \<open>
  The exported operations of apiService on incomes, expenses, categories and the filter,
  as one type of calls, so that a statement can range over them. \<open>call\<close> only
  dispatches; lists and records are returned as JSON values.
\<close>

datatype api_call =
    FetchIncomes
  | FetchExpenses
  | FetchCategories
  | CreateIncome transaction_input
  | CreateExpense transaction_input
  | CreateCategory category_input
  | UpdateIncome string json
  | UpdateExpense string json
  | UpdateCategory string json
  | DeleteIncome string
  | DeleteExpense string
  | DeleteCategory string
  | FilterTransactions json

definition returning :: "('a \<Rightarrow> json) \<Rightarrow> 'a outcome \<Rightarrow> json outcome" where
  "returning f out = (case out of (res, s, qs) \<Rightarrow> (map_sum id f res, s, qs))"

fun call :: "api_call \<Rightarrow> remote_outcome \<Rightarrow> nat \<Rightarrow> storage \<Rightarrow> json outcome" where
  "call FetchIncomes r now s = returning JArr (fetchIncomes r s)"
| "call FetchExpenses r now s = returning JArr (fetchExpenses r s)"
| "call FetchCategories r now s = returning JArr (fetchCategories r s)"
| "call (CreateIncome t) r now s = returning JObj (createIncome t r now s)"
| "call (CreateExpense t) r now s = returning JObj (createExpense t r now s)"
| "call (CreateCategory c) r now s = createCategory c r now s"
| "call (UpdateIncome i b) r now s = updateIncome i b r s"
| "call (UpdateExpense i b) r now s = updateExpense i b r s"
| "call (UpdateCategory i b) r now s = updateCategory i b r s"
| "call (DeleteIncome i) r now s = deleteIncome i r s"
| "call (DeleteExpense i) r now s = deleteExpense i r s"
| "call (DeleteCategory i) r now s = deleteCategory i r s"
| "call (FilterTransactions f) r now s = returning JArr (filterTransactions f r s)"

text \<open>The operations whose source has a branch for the local store.\<close>

fun has_local_branch :: "api_call \<Rightarrow> bool" where
  "has_local_branch (UpdateIncome i b) = False"
| "has_local_branch (UpdateExpense i b) = False"
| "has_local_branch (UpdateCategory i b) = False"
| "has_local_branch (FilterTransactions f) = False"
| "has_local_branch c = True"

definition result_of :: "'a outcome \<Rightarrow> js_error + 'a" where
  "result_of out = fst out"

definition storage_of :: "'a outcome \<Rightarrow> storage" where
  "storage_of out = fst (snd out)"

definition requests_of :: "'a outcome \<Rightarrow> request list" where
  "requests_of out = snd (snd out)"

section \<open>What else writes the mode, and sessions\<close>

text \<open>forceOnlineMode of apiService.\<close>

definition forceOnlineMode :: "storage \<Rightarrow> storage" where
  "forceOnlineMode s = s\<lparr>backendMode := Some ''online''\<rparr>"

text \<open>
  The effect that App runs when it is mounted (on every load of the page): with a token
  and a user stored, it writes the mode \<open>online\<close>. A stored token is truthy when it is
  not the empty string; a stored user is a serialised value, never the empty string. The
  three listing calls that App makes next are steps of their own.
\<close>

definition app_mount :: "storage \<Rightarrow> storage" where
  "app_mount s =
     (if (case token s of None \<Rightarrow> False | Some t \<Rightarrow> t \<noteq> []) \<and> currentUser s \<noteq> None
      then s\<lparr>backendMode := Some ''online''\<rparr>
      else s)"

text \<open>
  A step of a session after signing in: a call of apiService, with the outcome its request
  would have and the value the clock would give; a new mount of App; a call of
  forceOnlineMode. (Login and register begin a session and are not steps of one.)
\<close>

datatype session_step =
    Call api_call remote_outcome nat
  | AppMount
  | ForceOnlineMode

fun step :: "session_step \<Rightarrow> storage \<Rightarrow> storage" where
  "step (Call c r now) s = storage_of (call c r now s)"
| "step AppMount s = app_mount s"
| "step ForceOnlineMode s = forceOnlineMode s"


fun run :: "session_step list \<Rightarrow> storage \<Rightarrow> storage" where
  "run [] s = s"
| "run (x # rest) s = run rest (step x s)"

text \<open>The ids of the transactions stored for a user: the incomes, then the expenses.\<close>

definition stored_ids :: "storage \<Rightarrow> json option \<Rightarrow> json option list" where
  "stored_ids s uid =
     map (\<lambda>x. map_of x ''id'')
       (load s (coll_key ''incomes'' uid) @ load s (coll_key ''expenses'' uid))"

text \<open>The calls that create a transaction, and what marks their ids: kind and clock value.\<close>

fun creation_stamp :: "session_step \<Rightarrow> (bool \<times> nat) option" where
  "creation_stamp (Call (CreateIncome t) r now) = Some (True, now)"
| "creation_stamp (Call (CreateExpense t) r now) = Some (False, now)"
| "creation_stamp other = None"

text \<open>
  The creations of a run that store a record for a user, each by its kind and clock value:
  the steps with a stamp after which the ids stored for the user are not what they were.
\<close>

fun local_stamps :: "json option \<Rightarrow> session_step list \<Rightarrow> storage \<Rightarrow> (bool \<times> nat) list" where
  "local_stamps uid [] s = []"
| "local_stamps uid (x # rest) s =
     (case creation_stamp x of
        None \<Rightarrow> local_stamps uid rest (step x s)
      | Some st \<Rightarrow>
          if stored_ids (step x s) uid = stored_ids s uid then local_stamps uid rest (step x s)
          else st # local_stamps uid rest (step x s))"

section \<open>Storages used in the examples\<close>

definition empty_storage :: storage where
  "empty_storage =
     \<lparr>token = None, currentUser = None, backendMode = None, users = None,
      collections = (\<lambda>k. None)\<rparr>"

definition online_storage :: storage where
  "online_storage =
     empty_storage\<lparr>token := Some ''jwt'', currentUser := Some (JObj [(''id'', JNum 7)]),
                   backendMode := Some ''online''\<rparr>"

definition offline_storage :: storage where
  "offline_storage = online_storage\<lparr>backendMode := Some ''offline''\<rparr>"

definition salary :: transaction_input where
  "salary = \<lparr>tx_name = Some ''Salary'', categoryId = 1, amount = 5000, date = ''2025-01-01'',
             description = None\<rparr>"

definition network_down :: remote_outcome where
  "network_down = Rejected (Some ''ERR_NETWORK'') ''Network Error'' None"

definition two_incomes :: storage where
  "two_incomes =
     save ''incomes_7'' [[(''id'', JStr ''inc_1''), (''amount'', JNum 10)],
                         [(''id'', JStr ''inc_2''), (''amount'', JNum 20)]] offline_storage"

text \<open>
  The id that a local creation gives a transaction, for the kind created (\<open>True\<close> for an
  income) and the value read from the clock.
\<close>

fun stamp_id :: "bool \<times> nat \<Rightarrow> json option" where
  "stamp_id (True, now) = Some (JStr (''inc_'' @ string_of_nat now))"
| "stamp_id (False, now) = Some (JStr (''exp_'' @ string_of_nat now))"

definition seeded_storage :: storage where
  "seeded_storage = storage_of (fetchCategories network_down offline_storage)"

definition food :: category_input where
  "food = \<lparr>cat_name = ''Food'', cat_type = ''expense'', cat_color = None\<rparr>"

definition enveloped_incomes :: json where
  "enveloped_incomes =
     JObj [(''success'', JBool True),
           (''data'', JObj [(''incomes'', JArr [JObj [(''id'', JNum 1), (''amount'', JNum 5000)]])])]"

definition unauthorized :: remote_outcome where
  "unauthorized =
     Rejected (Some ''ERR_BAD_REQUEST'') ''Request failed with status code 401''
       (Some (401, JObj [(''message'', JStr ''Token expired'')]))"

definition bad_request :: remote_outcome where
  "bad_request =
     Rejected (Some ''ERR_BAD_REQUEST'') ''Request failed with status code 400''
       (Some (400, JObj [(''message'', JStr ''Amount is required'')]))"

definition local_account_storage :: storage where
  "local_account_storage =
     empty_storage\<lparr>users := Some [[(''id'', JStr ''user_1''), (''username'', JStr ''ann''),
                                    (''email'', JStr ''ann@example.com''), (''password'', JStr ''secret1'')]]\<rparr>"

text \<open>
  On ASCII text, \<open>toLowerCase\<close> maps the letters A to Z to a to z, and \<open>trim\<close> strips
  space, tab, line feed, vertical tab, form feed and carriage return from both ends. The
  examples, whose names are ASCII, pass these two to the form.
\<close>

definition ascii_lower_char :: "char \<Rightarrow> char" where
  "ascii_lower_char c =
     (let n = (of_char c :: nat) in if 65 \<le> n \<and> n \<le> 90 then char_of (n + 32) else c)"

definition ascii_toLowerCase :: "string \<Rightarrow> string" where
  "ascii_toLowerCase t = map ascii_lower_char t"

definition ascii_blank :: "char \<Rightarrow> bool" where
  "ascii_blank c = (let n = (of_char c :: nat) in n = 32 \<or> (9 \<le> n \<and> n \<le> 13))"

definition ascii_trim :: "string \<Rightarrow> string" where
  "ascii_trim t = rev (dropWhile ascii_blank (rev (dropWhile ascii_blank t)))"


section \<open>Basic facts about the local store\<close>

lemma load_save [simp]: "load (save k xs s) k' = (if k' = k then xs else load s k')"
  by (simp add: load_def save_def)

lemma getUserId_save [simp]: "getUserId (save k xs s) = getUserId s"
  by (simp add: getUserId_def save_def)

lemma isOfflineMode_save [simp]: "isOfflineMode (save k xs s) = isOfflineMode s"
  by (simp add: isOfflineMode_def save_def)

lemma save_save [simp]: "save k xs (save k ys s) = save k xs s"
  by (simp add: save_def)

lemma local_delete_eq:
  "getUserId s = Inr uid \<Longrightarrow>
   local_delete kind ident s =
     (Inr (JObj [(''success'', JBool True)]),
      save (coll_key kind uid)
        (filter (\<lambda>x. map_of x ''id'' \<noteq> Some (JStr ident)) (load s (coll_key kind uid))) s, [])"
  by (simp add: local_delete_def)

lemma local_delete_twice:
  "getUserId s = Inr uid \<Longrightarrow>
   local_delete kind ident (storage_of (local_delete kind ident s)) = local_delete kind ident s"
  by (simp add: local_delete_eq storage_of_def)

lemma string_of_nat_digit: "n < 10 \<Longrightarrow> string_of_nat n = [digit_char n]"
  by (simp add: string_of_nat.simps)

lemma offline_storage_facts:
  "isOfflineMode offline_storage"
  "getUserId offline_storage = Inr (Some (JNum 7))"
  "coll_key kind (Some (JNum 7)) = kind @ ''_7''"
  by (simp_all add: offline_storage_def online_storage_def empty_storage_def isOfflineMode_def
        getUserId_def js_or_def coll_key_def string_of_nat_digit digit_char_def)

section \<open>Deleting in local mode\<close>

text \<open>
  Claim C9. In local mode, deleteIncome, deleteExpense and deleteCategory report success
  whether or not a record has the given id; the collection they leave is the stored one
  without the records whose id is the given one, every other record and every other key
  being as before; and deleting the same id a second time gives the same result and
  leaves the same storage as deleting it once. (The stored user is not \<open>null\<close>, which
  no writer of \<open>currentUser\<close> stores.)
\<close>

theorem local_delete_idempotent:
  assumes "isOfflineMode s" and "getUserId s = Inr uid"
  shows "deleteIncome ident r s =
           (Inr (JObj [(''success'', JBool True)]),
            save (coll_key ''incomes'' uid)
              (filter (\<lambda>x. map_of x ''id'' \<noteq> Some (JStr ident)) (load s (coll_key ''incomes'' uid))) s, [])
       \<and> deleteExpense ident r s =
           (Inr (JObj [(''success'', JBool True)]),
            save (coll_key ''expenses'' uid)
              (filter (\<lambda>x. map_of x ''id'' \<noteq> Some (JStr ident)) (load s (coll_key ''expenses'' uid))) s, [])
       \<and> deleteCategory ident r s =
           (Inr (JObj [(''success'', JBool True)]),
            save (coll_key ''categories'' uid)
              (filter (\<lambda>x. map_of x ''id'' \<noteq> Some (JStr ident)) (load s (coll_key ''categories'' uid))) s, [])
       \<and> deleteIncome ident r' (storage_of (deleteIncome ident r s)) = deleteIncome ident r s
       \<and> deleteExpense ident r' (storage_of (deleteExpense ident r s)) = deleteExpense ident r s
       \<and> deleteCategory ident r' (storage_of (deleteCategory ident r s)) = deleteCategory ident r s"
proof -
  have inc: "deleteIncome ident q t = local_delete ''incomes'' ident t" if "isOfflineMode t" for q t
    using that by (simp add: deleteIncome.simps)
  have exp: "deleteExpense ident q t = local_delete ''expenses'' ident t" if "isOfflineMode t" for q t
    using that by (simp add: deleteExpense.simps)
  have cat: "deleteCategory ident q t = local_delete ''categories'' ident t" if "isOfflineMode t" for q t
    using that by (simp add: deleteCategory.simps)
  have off: "isOfflineMode (storage_of (local_delete kind ident s))" for kind
    using assms by (simp add: local_delete_eq storage_of_def)
  show ?thesis
    using assms off
    by (simp add: inc exp cat local_delete_twice) (simp add: local_delete_eq)
qed

theorem local_delete_idempotent_witness:
  "isOfflineMode two_incomes \<and> getUserId two_incomes = Inr (Some (JNum 7))
   \<and> result_of (deleteIncome ''inc_1'' network_down two_incomes) = Inr (JObj [(''success'', JBool True)])
   \<and> load (storage_of (deleteIncome ''inc_1'' network_down two_incomes)) ''incomes_7''
       = [[(''id'', JStr ''inc_2''), (''amount'', JNum 20)]]
   \<and> deleteIncome ''inc_1'' network_down (storage_of (deleteIncome ''inc_1'' network_down two_incomes))
       = deleteIncome ''inc_1'' network_down two_incomes"
proof -
  have off: "isOfflineMode two_incomes" and uid: "getUserId two_incomes = Inr (Some (JNum 7))"
    by (simp_all add: two_incomes_def offline_storage_facts)
  note T = local_delete_idempotent [OF off uid, of "''inc_1''" network_down network_down]
  have first: "deleteIncome ''inc_1'' network_down two_incomes =
      (Inr (JObj [(''success'', JBool True)]),
       save ''incomes_7'' [[(''id'', JStr ''inc_2''), (''amount'', JNum 20)]] two_incomes, [])"
    using T [THEN conjunct1] by (simp add: two_incomes_def offline_storage_facts)
  have twice: "deleteIncome ''inc_1'' network_down (storage_of (deleteIncome ''inc_1'' network_down two_incomes))
       = deleteIncome ''inc_1'' network_down two_incomes"
    using T by blast
  show ?thesis
    using off uid twice by (simp add: first result_of_def storage_of_def)
qed

section \<open>The default categories\<close>

text \<open>
  Claim C10. In local mode, fetching the categories of a user whose stored collection is
  empty or absent writes the seven default categories under that user's key and returns
  them; a second fetch returns the same seven and changes nothing. Their names, types
  and colours are the fixed ones.
\<close>

theorem fetchCategories_seeds_defaults:
  assumes "isOfflineMode s" and "getUserId s = Inr uid"
    and "load s (coll_key ''categories'' uid) = []"
  shows "fetchCategories r s =
           (Inr (map JObj defaultCategories),
            save (coll_key ''categories'' uid) defaultCategories s, [])
       \<and> fetchCategories r' (storage_of (fetchCategories r s)) =
           (Inr (map JObj defaultCategories), storage_of (fetchCategories r s), [])
       \<and> map (\<lambda>c. (map_of c ''name'', map_of c ''type'', map_of c ''color'')) defaultCategories =
           [(Some (JStr ''Salary''), Some (JStr ''income''), Some (JStr ''#10b981'')),
            (Some (JStr ''Freelance''), Some (JStr ''income''), Some (JStr ''#34d399'')),
            (Some (JStr ''Investment''), Some (JStr ''income''), Some (JStr ''#6ee7b7'')),
            (Some (JStr ''Food''), Some (JStr ''expense''), Some (JStr ''#ef4444'')),
            (Some (JStr ''Transport''), Some (JStr ''expense''), Some (JStr ''#f87171'')),
            (Some (JStr ''Entertainment''), Some (JStr ''expense''), Some (JStr ''#fca5a5'')),
            (Some (JStr ''Bills''), Some (JStr ''expense''), Some (JStr ''#dc2626''))]"
proof -
  have first: "fetchCategories r s =
      (Inr (map JObj defaultCategories), save (coll_key ''categories'' uid) defaultCategories s, [])"
    using assms by (simp add: fetchCategories.simps)
  have len: "length defaultCategories \<noteq> 0"
    by (simp add: defaultCategories_def)
  have second: "fetchCategories r' (save (coll_key ''categories'' uid) defaultCategories s) =
      (Inr (map JObj defaultCategories), save (coll_key ''categories'' uid) defaultCategories s, [])"
    using assms len by (simp add: fetchCategories.simps [of r'])
  have names: "map (\<lambda>c. (map_of c ''name'', map_of c ''type'', map_of c ''color'')) defaultCategories =
           [(Some (JStr ''Salary''), Some (JStr ''income''), Some (JStr ''#10b981'')),
            (Some (JStr ''Freelance''), Some (JStr ''income''), Some (JStr ''#34d399'')),
            (Some (JStr ''Investment''), Some (JStr ''income''), Some (JStr ''#6ee7b7'')),
            (Some (JStr ''Food''), Some (JStr ''expense''), Some (JStr ''#ef4444'')),
            (Some (JStr ''Transport''), Some (JStr ''expense''), Some (JStr ''#f87171'')),
            (Some (JStr ''Entertainment''), Some (JStr ''expense''), Some (JStr ''#fca5a5'')),
            (Some (JStr ''Bills''), Some (JStr ''expense''), Some (JStr ''#dc2626''))]"
    by (simp add: defaultCategories_def)
  show ?thesis
    using first second names by (simp add: storage_of_def)
qed

theorem fetchCategories_seeds_defaults_witness:
  "isOfflineMode offline_storage \<and> getUserId offline_storage = Inr (Some (JNum 7))
   \<and> load offline_storage (coll_key ''categories'' (Some (JNum 7))) = []
   \<and> result_of (fetchCategories network_down offline_storage) = Inr (map JObj defaultCategories)
   \<and> load (storage_of (fetchCategories network_down offline_storage)) ''categories_7'' = defaultCategories
   \<and> result_of (fetchCategories network_down (storage_of (fetchCategories network_down offline_storage)))
       = Inr (map JObj defaultCategories)"
proof -
  have empty: "load offline_storage (coll_key ''categories'' (Some (JNum 7))) = []"
    by (simp add: load_def offline_storage_def online_storage_def empty_storage_def)
  note T = fetchCategories_seeds_defaults [OF offline_storage_facts(1) offline_storage_facts(2) empty,
        of network_down network_down]
  have first: "fetchCategories network_down offline_storage =
      (Inr (map JObj defaultCategories), save ''categories_7'' defaultCategories offline_storage, [])"
    using T [THEN conjunct1] by (simp add: offline_storage_facts)
  have second: "result_of (fetchCategories network_down (storage_of (fetchCategories network_down offline_storage)))
       = Inr (map JObj defaultCategories)"
    using T [THEN conjunct2, THEN conjunct1] by (simp add: result_of_def)
  show ?thesis
    using empty second by (simp add: first offline_storage_facts result_of_def storage_of_def)
qed

section \<open>Locally generated identifiers\<close>

lemma digit_char_inj: "a < 10 \<Longrightarrow> b < 10 \<Longrightarrow> digit_char a = digit_char b \<Longrightarrow> a = b"
proof -
  assume a: "a < 10" and b: "b < 10" and eq: "digit_char a = digit_char b"
  have d: "distinct ''0123456789''" by simp
  from a b eq show "a = b"
    unfolding digit_char_def using nth_eq_iff_index_eq [OF d, of a b] by simp
qed

lemma string_of_nat_nonempty: "string_of_nat n \<noteq> []"
  by (subst string_of_nat.simps) simp

lemma string_of_nat_inj: "string_of_nat n = string_of_nat m \<Longrightarrow> n = m"
proof (induction n arbitrary: m rule: string_of_nat.induct)
  case (1 n)
  show ?case
  proof (cases "n < 10")
    case small_n: True
    show ?thesis
    proof (cases "m < 10")
      case True
      with small_n "1.prems" show ?thesis
        by (simp add: string_of_nat.simps [of n] string_of_nat.simps [of m] digit_char_inj)
    next
      case False
      with small_n "1.prems" have "string_of_nat (m div 10) = []"
        by (simp add: string_of_nat.simps [of n] string_of_nat.simps [of m])
      then show ?thesis
        by (simp add: string_of_nat_nonempty)
    qed
  next
    case big_n: False
    show ?thesis
    proof (cases "m < 10")
      case True
      with big_n "1.prems" have "string_of_nat (n div 10) = []"
        by (simp add: string_of_nat.simps [of n] string_of_nat.simps [of m])
      then show ?thesis
        by (simp add: string_of_nat_nonempty)
    next
      case False
      with big_n "1.prems" have heads: "string_of_nat (n div 10) = string_of_nat (m div 10)"
        and lasts: "digit_char (n mod 10) = digit_char (m mod 10)"
        by (simp_all add: string_of_nat.simps [of n] string_of_nat.simps [of m])
      from "1.IH" [OF big_n heads] have "n div 10 = m div 10" .
      moreover from lasts have "n mod 10 = m mod 10"
        by (simp add: digit_char_inj)
      ultimately show ?thesis
        by (metis div_mult_mod_eq)
    qed
  qed
qed

lemma stamp_id_inj: "stamp_id a = stamp_id b \<Longrightarrow> a = b"
  by (cases a; cases b; rename_tac k n k' n'; case_tac k; case_tac k')
     (auto dest: string_of_nat_inj)

lemma local_create_eq:
  "getUserId s = Inr uid \<Longrightarrow>
   local_create kind prefix flds now s =
     (Inr ((''id'', JStr (prefix @ string_of_nat now)) # flds),
      save (coll_key kind uid)
        (load s (coll_key kind uid) @ [(''id'', JStr (prefix @ string_of_nat now)) # flds]) s)"
  by (simp add: local_create_def Let_def)

lemma coll_key_kinds [simp]:
  "coll_key ''incomes'' uid \<noteq> coll_key ''expenses'' uid"
  "coll_key ''expenses'' uid \<noteq> coll_key ''incomes'' uid"
  by (simp_all add: coll_key_def)

lemma createIncome_offline_storage:
  "isOfflineMode s \<Longrightarrow> getUserId s = Inr uid \<Longrightarrow>
   storage_of (createIncome t r now s) =
     (if categoryId t = 0 \<or> amount t \<le> 0 \<or> date t = [] then s
      else save (coll_key ''incomes'' uid)
             (load s (coll_key ''incomes'' uid)
                @ [(''id'', JStr (''inc_'' @ string_of_nat now)) # transaction_fields t]) s)"
  by (simp add: createIncome_def storage_of_def local_create_eq)

lemma createExpense_offline_storage:
  "isOfflineMode s \<Longrightarrow> getUserId s = Inr uid \<Longrightarrow>
   storage_of (createExpense t r now s) =
     (if categoryId t = 0 \<or> amount t \<le> 0 \<or> date t = [] then s
      else save (coll_key ''expenses'' uid)
             (load s (coll_key ''expenses'' uid)
                @ [(''id'', JStr (''exp_'' @ string_of_nat now)) # transaction_fields t]) s)"
  by (simp add: createExpense_def storage_of_def local_create_eq)

lemma storage_of_returning [simp]: "storage_of (returning f out) = storage_of out"
  by (cases out) (simp add: returning_def storage_of_def)

lemma stored_ids_save_incomes:
  "stored_ids (save (coll_key ''incomes'' uid) xs s) uid =
     map (\<lambda>x. map_of x ''id'') xs @ map (\<lambda>x. map_of x ''id'') (load s (coll_key ''expenses'' uid))"
  by (simp add: stored_ids_def)

lemma stored_ids_save_expenses:
  "stored_ids (save (coll_key ''expenses'' uid) xs s) uid =
     map (\<lambda>x. map_of x ''id'') (load s (coll_key ''incomes'' uid)) @ map (\<lambda>x. map_of x ''id'') xs"
  by (simp add: stored_ids_def)

section \<open>Duplicate categories\<close>

text \<open>
  Claim C7, as amended. The test for a duplicate is made by the category form, against
  the categories the page shows. A blank name (empty after \<open>trim\<close>) gets the message
  \<open>Please enter a category name\<close>. For a name that is not blank, when one of the shown
  categories has the submitted type and a name equal to the submitted one after
  \<open>toLowerCase\<close>, the form shows the duplicate message, calls nothing and leaves the
  storage as it is. createCategory itself makes no such test: in local mode, for a stored
  user that is not \<open>null\<close>, it appends the new category to the stored collection whatever
  that holds, and returns it; in remote mode it sends its one request and returns what the
  server answers, or throws the error of a request that fails otherwise than by a network
  error.
\<close>

theorem category_form_rejects_duplicate:
  "(trim name = [] \<longrightarrow>
      category_handleSubmit toLowerCase trim categories name type r now s =
        (Inl (Some (JStr ''Please enter a category name'')), s, []))
   \<and> (trim name \<noteq> []
        \<and> (\<exists>cat\<in>set categories. toLowerCase (c_name cat) = toLowerCase name \<and> c_type cat = type)
      \<longrightarrow> category_handleSubmit toLowerCase trim categories name type r now s =
            (Inl (Some (JStr ''A category with this name already exists for this type'')), s, []))
   \<and> (isOfflineMode s2 \<and> getUserId s2 = Inr uid \<longrightarrow>
        createCategory cat r now s2 =
          (Inr (JObj ((''id'', JStr (''cat_'' @ string_of_nat now)) # category_fields cat)),
           save (coll_key ''categories'' uid)
             (load s2 (coll_key ''categories'' uid)
                @ [(''id'', JStr (''cat_'' @ string_of_nat now)) # category_fields cat]) s2,
           []))
   \<and> (\<not> isOfflineMode s2 \<longrightarrow>
        createCategory cat (Resolved status body) now s2 = (Inr body, s2, [(POST, ''/categories'')]))
   \<and> (\<not> isOfflineMode s2 \<and> code \<noteq> Some ''ERR_NETWORK'' \<and> msg \<noteq> ''Network Error'' \<longrightarrow>
        result_of (createCategory cat (Rejected code msg resp) now s2) = Inl (AxiosError code msg resp)
        \<and> requests_of (createCategory cat (Rejected code msg resp) now s2) = [(POST, ''/categories'')])"
proof -
  have blank: "trim name = [] \<longrightarrow>
      category_handleSubmit toLowerCase trim categories name type r now s =
        (Inl (Some (JStr ''Please enter a category name'')), s, [])"
    by (simp add: category_handleSubmit_def)
  have dup: "trim name \<noteq> []
        \<and> (\<exists>cat\<in>set categories. toLowerCase (c_name cat) = toLowerCase name \<and> c_type cat = type)
      \<longrightarrow> category_handleSubmit toLowerCase trim categories name type r now s =
            (Inl (Some (JStr ''A category with this name already exists for this type'')), s, [])"
    by (simp add: category_handleSubmit_def list_ex_iff)
  have local: "isOfflineMode s2 \<and> getUserId s2 = Inr uid \<longrightarrow>
        createCategory cat r now s2 =
          (Inr (JObj ((''id'', JStr (''cat_'' @ string_of_nat now)) # category_fields cat)),
           save (coll_key ''categories'' uid)
             (load s2 (coll_key ''categories'' uid)
                @ [(''id'', JStr (''cat_'' @ string_of_nat now)) # category_fields cat]) s2,
           [])"
    by (simp add: createCategory.simps [of cat r now s2] local_create_eq)
  have remote: "\<not> isOfflineMode s2 \<longrightarrow>
        createCategory cat (Resolved status body) now s2 = (Inr body, s2, [(POST, ''/categories'')])"
    by (simp add: createCategory.simps [of cat _ now s2] axios_request_def)
  have refused: "\<not> isOfflineMode s2 \<and> code \<noteq> Some ''ERR_NETWORK'' \<and> msg \<noteq> ''Network Error'' \<longrightarrow>
        result_of (createCategory cat (Rejected code msg resp) now s2) = Inl (AxiosError code msg resp)
        \<and> requests_of (createCategory cat (Rejected code msg resp) now s2) = [(POST, ''/categories'')]"
    by (simp add: createCategory.simps [of cat _ now s2] axios_request_def is_network_error_def
          result_of_def requests_of_def)
  show ?thesis
    using blank dup local remote refused by blast
qed

theorem category_form_rejects_duplicate_witness:
  "ascii_trim ''food'' \<noteq> []
   \<and> (\<exists>cat\<in>set [\<lparr>c_id = ''4'', c_name = ''Food'', c_type = ''expense'', c_color = ''#ef4444''\<rparr>].
         ascii_toLowerCase (c_name cat) = ascii_toLowerCase ''food'' \<and> c_type cat = ''expense'')
   \<and> category_handleSubmit ascii_toLowerCase ascii_trim
         [\<lparr>c_id = ''4'', c_name = ''Food'', c_type = ''expense'', c_color = ''#ef4444''\<rparr>]
         ''food'' ''expense'' network_down 1000 seeded_storage =
       (Inl (Some (JStr ''A category with this name already exists for this type'')), seeded_storage, [])
   \<and> ascii_trim ''  '' = []
   \<and> category_handleSubmit ascii_toLowerCase ascii_trim
         [\<lparr>c_id = ''4'', c_name = ''Food'', c_type = ''expense'', c_color = ''#ef4444''\<rparr>]
         ''  '' ''expense'' network_down 1000 seeded_storage =
       (Inl (Some (JStr ''Please enter a category name'')), seeded_storage, [])
   \<and> isOfflineMode seeded_storage \<and> getUserId seeded_storage = Inr (Some (JNum 7))
   \<and> createCategory food network_down 1000 seeded_storage =
       (Inr (JObj ((''id'', JStr (''cat_'' @ string_of_nat 1000)) # category_fields food)),
        save (coll_key ''categories'' (Some (JNum 7)))
          (load seeded_storage (coll_key ''categories'' (Some (JNum 7)))
             @ [(''id'', JStr (''cat_'' @ string_of_nat 1000)) # category_fields food]) seeded_storage,
        [])
   \<and> \<not> isOfflineMode online_storage
   \<and> createCategory food (Resolved 201 (JObj [(''id'', JNum 9), (''name'', JStr ''Food'')])) 1000
         online_storage =
       (Inr (JObj [(''id'', JNum 9), (''name'', JStr ''Food'')]), online_storage, [(POST, ''/categories'')])
   \<and> Some ''ERR_BAD_RESPONSE'' \<noteq> Some ''ERR_NETWORK''
   \<and> ''Request failed with status code 500'' \<noteq> ''Network Error''
   \<and> result_of (createCategory food
         (Rejected (Some ''ERR_BAD_RESPONSE'') ''Request failed with status code 500''
            (Some (500, JObj [(''message'', JStr ''Category already exists'')]))) 1000 online_storage)
       = Inl (AxiosError (Some ''ERR_BAD_RESPONSE'') ''Request failed with status code 500''
                (Some (500, JObj [(''message'', JStr ''Category already exists'')])))
   \<and> requests_of (createCategory food
         (Rejected (Some ''ERR_BAD_RESPONSE'') ''Request failed with status code 500''
            (Some (500, JObj [(''message'', JStr ''Category already exists'')]))) 1000 online_storage)
       = [(POST, ''/categories'')]"
proof -
  have empty: "load offline_storage k = []" for k
    by (simp add: load_def offline_storage_def online_storage_def empty_storage_def)
  have seeded: "seeded_storage = save ''categories_7'' defaultCategories offline_storage"
    by (simp add: seeded_storage_def fetchCategories.simps offline_storage_facts empty storage_of_def)
  have off: "isOfflineMode seeded_storage" and uid: "getUserId seeded_storage = Inr (Some (JNum 7))"
    unfolding seeded by (simp_all add: offline_storage_facts)
  have on: "\<not> isOfflineMode online_storage"
    by (simp add: isOfflineMode_def online_storage_def empty_storage_def)
  note T3 = category_form_rejects_duplicate [where ?s2.0 = seeded_storage and uid = "Some (JNum 7)"
      and cat = food and r = network_down and now = 1000]
  note T4 = category_form_rejects_duplicate [where ?s2.0 = online_storage and cat = food and now = 1000
      and status = 201 and body = "JObj [(''id'', JNum 9), (''name'', JStr ''Food'')]"]
  have local: "createCategory food network_down 1000 seeded_storage =
       (Inr (JObj ((''id'', JStr (''cat_'' @ string_of_nat 1000)) # category_fields food)),
        save (coll_key ''categories'' (Some (JNum 7)))
          (load seeded_storage (coll_key ''categories'' (Some (JNum 7)))
             @ [(''id'', JStr (''cat_'' @ string_of_nat 1000)) # category_fields food]) seeded_storage,
        [])"
    using T3 off uid by blast
  have remote: "createCategory food (Resolved 201 (JObj [(''id'', JNum 9), (''name'', JStr ''Food'')])) 1000
         online_storage =
       (Inr (JObj [(''id'', JNum 9), (''name'', JStr ''Food'')]), online_storage, [(POST, ''/categories'')])"
    using T4 on by blast
  have t: "ascii_trim ''food'' \<noteq> []"
    by (simp add: ascii_trim_def ascii_blank_def)
  have b: "ascii_trim ''  '' = []"
    by (simp add: ascii_trim_def ascii_blank_def)
  have d: "\<exists>cat\<in>set [\<lparr>c_id = ''4'', c_name = ''Food'', c_type = ''expense'', c_color = ''#ef4444''\<rparr>].
         ascii_toLowerCase (c_name cat) = ascii_toLowerCase ''food'' \<and> c_type cat = ''expense''"
    by code_simp
  note T1 = category_form_rejects_duplicate [where trim = ascii_trim and toLowerCase = ascii_toLowerCase
      and name = "''food''" and type = "''expense''" and r = network_down and now = 1000
      and s = seeded_storage
      and categories = "[\<lparr>c_id = ''4'', c_name = ''Food'', c_type = ''expense'', c_color = ''#ef4444''\<rparr>]"]
  note T2 = category_form_rejects_duplicate [where trim = ascii_trim and toLowerCase = ascii_toLowerCase
      and name = "''  ''" and type = "''expense''" and r = network_down and now = 1000
      and s = seeded_storage
      and categories = "[\<lparr>c_id = ''4'', c_name = ''Food'', c_type = ''expense'', c_color = ''#ef4444''\<rparr>]"]
  have dup: "category_handleSubmit ascii_toLowerCase ascii_trim
         [\<lparr>c_id = ''4'', c_name = ''Food'', c_type = ''expense'', c_color = ''#ef4444''\<rparr>]
         ''food'' ''expense'' network_down 1000 seeded_storage =
       (Inl (Some (JStr ''A category with this name already exists for this type'')), seeded_storage, [])"
    using T1 t d by blast
  have blank: "category_handleSubmit ascii_toLowerCase ascii_trim
         [\<lparr>c_id = ''4'', c_name = ''Food'', c_type = ''expense'', c_color = ''#ef4444''\<rparr>]
         ''  '' ''expense'' network_down 1000 seeded_storage =
       (Inl (Some (JStr ''Please enter a category name'')), seeded_storage, [])"
    using T2 b by blast
  note T5 = category_form_rejects_duplicate [where ?s2.0 = online_storage and cat = food and now = 1000
      and code = "Some ''ERR_BAD_RESPONSE''" and msg = "''Request failed with status code 500''"
      and resp = "Some (500, JObj [(''message'', JStr ''Category already exists'')])"]
  have c: "Some ''ERR_BAD_RESPONSE'' \<noteq> Some ''ERR_NETWORK''"
    and m: "''Request failed with status code 500'' \<noteq> ''Network Error''"
    by simp_all
  note R = T5 [THEN conjunct2, THEN conjunct2, THEN conjunct2, THEN conjunct2, THEN mp,
      OF conjI [OF on conjI [OF c m]]]
  have refused: "result_of (createCategory food
         (Rejected (Some ''ERR_BAD_RESPONSE'') ''Request failed with status code 500''
            (Some (500, JObj [(''message'', JStr ''Category already exists'')]))) 1000 online_storage)
       = Inl (AxiosError (Some ''ERR_BAD_RESPONSE'') ''Request failed with status code 500''
                (Some (500, JObj [(''message'', JStr ''Category already exists'')])))"
    by (rule R [THEN conjunct1])
  have sent: "requests_of (createCategory food
         (Rejected (Some ''ERR_BAD_RESPONSE'') ''Request failed with status code 500''
            (Some (500, JObj [(''message'', JStr ''Category already exists'')]))) 1000 online_storage)
       = [(POST, ''/categories'')]"
    by (rule R [THEN conjunct2])
  show ?thesis
    by (intro conjI) (fact t d dup b blank off uid local on remote c m refused sent)+
qed

text \<open>
  Counterexample to claim C7 as stated: in local mode, with the seven default categories
  stored (one of them Food, of type expense), createCategory for the name Food and the
  type expense succeeds, and the stored collection then holds two categories with that
  name and type.
\<close>

theorem createCategory_stores_duplicate:
  "isOfflineMode seeded_storage
   \<and> map (\<lambda>c. (map_of c ''name'', map_of c ''type'')) (load seeded_storage ''categories_7'')
       = [(Some (JStr ''Salary''), Some (JStr ''income'')), (Some (JStr ''Freelance''), Some (JStr ''income'')),
          (Some (JStr ''Investment''), Some (JStr ''income'')), (Some (JStr ''Food''), Some (JStr ''expense'')),
          (Some (JStr ''Transport''), Some (JStr ''expense'')), (Some (JStr ''Entertainment''), Some (JStr ''expense'')),
          (Some (JStr ''Bills''), Some (JStr ''expense''))]
   \<and> result_of (createCategory food network_down 1000 seeded_storage)
       = Inr (JObj [(''id'', JStr ''cat_1000''), (''name'', JStr ''Food''), (''type'', JStr ''expense'')])
   \<and> map (\<lambda>c. (map_of c ''name'', map_of c ''type''))
        (load (storage_of (createCategory food network_down 1000 seeded_storage)) ''categories_7'')
       = [(Some (JStr ''Salary''), Some (JStr ''income'')), (Some (JStr ''Freelance''), Some (JStr ''income'')),
          (Some (JStr ''Investment''), Some (JStr ''income'')), (Some (JStr ''Food''), Some (JStr ''expense'')),
          (Some (JStr ''Transport''), Some (JStr ''expense'')), (Some (JStr ''Entertainment''), Some (JStr ''expense'')),
          (Some (JStr ''Bills''), Some (JStr ''expense'')), (Some (JStr ''Food''), Some (JStr ''expense''))]"
proof -
  have empty: "load offline_storage k = []" for k
    by (simp add: load_def offline_storage_def online_storage_def empty_storage_def)
  have seeded: "seeded_storage = save ''categories_7'' defaultCategories offline_storage"
    by (simp add: seeded_storage_def fetchCategories.simps offline_storage_facts empty storage_of_def)
  have created: "createCategory food network_down 1000 seeded_storage =
      (Inr (JObj [(''id'', JStr ''cat_1000''), (''name'', JStr ''Food''), (''type'', JStr ''expense'')]),
       save ''categories_7''
         (defaultCategories @ [[(''id'', JStr ''cat_1000''), (''name'', JStr ''Food''), (''type'', JStr ''expense'')]])
         offline_storage, [])"
    by (simp add: seeded createCategory.simps offline_storage_facts local_create_eq food_def
          category_fields_def opt_field_def string_of_nat.simps digit_char_def)
  show ?thesis
    unfolding created unfolding seeded
    by (simp add: offline_storage_facts result_of_def storage_of_def defaultCategories_def)
qed

section \<open>Normalising a listing response\<close>

lemma isOfflineMode_online [simp]: "\<not> isOfflineMode online_storage"
  by (simp add: isOfflineMode_def online_storage_def)

lemma list_try_resolved: "list_try kind (Resolved st body) s = (list_from_body kind body, s)"
  by (simp add: list_try_def axios_request_def)

lemma list_from_body_total: "body \<noteq> JNull \<Longrightarrow> \<exists>xs. list_from_body kind body = Inr xs"
  by (auto simp: list_from_body_def split: option.splits json.splits)

text \<open>
  Claim C5, as amended. In remote mode, for a body other than \<open>null\<close>, a listing
  operation never fails: it takes the first truthy one of \<open>body.<kind>\<close>, \<open>body.data\<close> and
  the body itself, and returns it when it is an array and an empty collection when it is
  not. So it returns the array of a bare array, of \<open>{ <kind>: array }\<close>, and of
  \<open>{ data: array }\<close> when \<open><kind>\<close> is absent or falsy; for every other body it returns
  an empty collection. The storage is unchanged and one GET is sent.
\<close>

theorem list_normalisation:
  assumes "\<not> isOfflineMode s" and "body \<noteq> JNull"
  shows "fetchIncomes (Resolved st body) s = (list_from_body ''incomes'' body, s, [(GET, ''/incomes'')])
       \<and> fetchExpenses (Resolved st body) s = (list_from_body ''expenses'' body, s, [(GET, ''/expenses'')])
       \<and> fetchCategories (Resolved st body) s = (list_from_body ''categories'' body, s, [(GET, ''/categories'')])
       \<and> (\<exists>ys. list_from_body kind body = Inr ys)
       \<and> (body = JArr xs \<longrightarrow> list_from_body kind body = Inr xs)
       \<and> (jprop body kind = Some (JArr xs) \<longrightarrow> list_from_body kind body = Inr xs)
       \<and> (\<not> truthy_val (jprop body kind) \<and> jprop body ''data'' = Some (JArr xs)
            \<longrightarrow> list_from_body kind body = Inr xs)
       \<and> (truthy_val (jprop body kind) \<and> (\<forall>ys. jprop body kind \<noteq> Some (JArr ys))
            \<longrightarrow> list_from_body kind body = Inr [])
       \<and> (\<not> truthy_val (jprop body kind) \<and> truthy_val (jprop body ''data'')
              \<and> (\<forall>ys. jprop body ''data'' \<noteq> Some (JArr ys))
            \<longrightarrow> list_from_body kind body = Inr [])
       \<and> (\<not> truthy_val (jprop body kind) \<and> \<not> truthy_val (jprop body ''data'')
              \<and> (\<forall>ys. body \<noteq> JArr ys)
            \<longrightarrow> list_from_body kind body = Inr [])"
proof -
  obtain zs where zs: "list_from_body ''incomes'' body = Inr zs"
    using list_from_body_total [OF assms(2)] by blast
  obtain ws where ws: "list_from_body ''expenses'' body = Inr ws"
    using list_from_body_total [OF assms(2)] by blast
  obtain vs where vs: "list_from_body ''categories'' body = Inr vs"
    using list_from_body_total [OF assms(2)] by blast
  have inc: "fetchIncomes (Resolved st body) s = (list_from_body ''incomes'' body, s, [(GET, ''/incomes'')])"
    using assms(1) by (simp add: fetchIncomes_def list_try_resolved zs)
  have exp: "fetchExpenses (Resolved st body) s = (list_from_body ''expenses'' body, s, [(GET, ''/expenses'')])"
    using assms(1) by (simp add: fetchExpenses_def list_try_resolved ws)
  have cat: "fetchCategories (Resolved st body) s = (list_from_body ''categories'' body, s, [(GET, ''/categories'')])"
    using assms(1) by (simp add: fetchCategories.simps list_try_resolved vs)
  have bare: "body = JArr xs \<longrightarrow> list_from_body kind body = Inr xs"
    by (simp add: list_from_body_def js_or_def)
  have keyed: "jprop body kind = Some (JArr xs) \<longrightarrow> list_from_body kind body = Inr xs"
    using assms(2) by (simp add: list_from_body_def js_or_def)
  have data: "\<not> truthy_val (jprop body kind) \<and> jprop body ''data'' = Some (JArr xs)
            \<longrightarrow> list_from_body kind body = Inr xs"
    using assms(2) by (simp add: list_from_body_def js_or_def)
  have other1: "truthy_val (jprop body kind) \<and> (\<forall>ys. jprop body kind \<noteq> Some (JArr ys))
            \<longrightarrow> list_from_body kind body = Inr []"
    using assms(2) by (auto simp: list_from_body_def js_or_def split: option.splits json.splits)
  have other2: "\<not> truthy_val (jprop body kind) \<and> truthy_val (jprop body ''data'')
              \<and> (\<forall>ys. jprop body ''data'' \<noteq> Some (JArr ys))
            \<longrightarrow> list_from_body kind body = Inr []"
    using assms(2) by (auto simp: list_from_body_def js_or_def split: option.splits json.splits)
  have other3: "\<not> truthy_val (jprop body kind) \<and> \<not> truthy_val (jprop body ''data'')
              \<and> (\<forall>ys. body \<noteq> JArr ys)
            \<longrightarrow> list_from_body kind body = Inr []"
    using assms(2) by (auto simp: list_from_body_def js_or_def split: option.splits json.splits)
  show ?thesis
    using inc exp cat list_from_body_total [OF assms(2), of kind] bare keyed data other1 other2 other3
    by blast
qed

theorem list_normalisation_witness:
  "\<not> isOfflineMode online_storage \<and> JObj [(''data'', JArr [JNum 1, JNum 2])] \<noteq> JNull
   \<and> fetchIncomes (Resolved 200 (JObj [(''data'', JArr [JNum 1, JNum 2])])) online_storage
       = (Inr [JNum 1, JNum 2], online_storage, [(GET, ''/incomes'')])"
proof -
  have nn: "JObj [(''data'', JArr [JNum 1, JNum 2])] \<noteq> JNull" by simp
  note T = list_normalisation [OF isOfflineMode_online nn, of 200 "''incomes''" "[JNum 1, JNum 2]"]
  have "list_from_body ''incomes'' (JObj [(''data'', JArr [JNum 1, JNum 2])]) = Inr [JNum 1, JNum 2]"
    using T by simp
  with T show ?thesis by simp
qed

text \<open>
  Counterexample to claim C5 as stated: the body
  \<open>{ success: true, data: { incomes: [record] } }\<close> has the fourth shape of the claim, yet
  fetchIncomes returns an empty collection for it, not the array.
\<close>

theorem enveloped_list_not_recognised:
  "\<not> isOfflineMode online_storage
   \<and> opt_prop (jprop enveloped_incomes ''data'') ''incomes'' = Some (JArr [JObj [(''id'', JNum 1), (''amount'', JNum 5000)]])
   \<and> result_of (fetchIncomes (Resolved 200 enveloped_incomes) online_storage) = Inr []"
  by (simp add: fetchIncomes_def list_try_resolved list_from_body_def js_or_def enveloped_incomes_def
        result_of_def)

section \<open>Routing in local mode\<close>

lemma outcome_parts [simp]:
  "result_of (a, b, c) = a" "storage_of (a, b, c) = b" "requests_of (a, b, c) = c"
  by (simp_all add: result_of_def storage_of_def requests_of_def)

lemma returning_parts [simp]:
  "result_of (returning f out) = map_sum id f (result_of out)"
  "requests_of (returning f out) = requests_of out"
  by (cases out; simp add: returning_def)+

lemma with_request_parts [simp]:
  "result_of (with_request q out) = result_of out"
  "storage_of (with_request q out) = storage_of out"
  "requests_of (with_request q out) = q # requests_of out"
  by (cases out; simp add: with_request_def)+

lemma local_list_parts:
  "snd (local_list kind s) = s"
  "getUserId s = Inr uid \<Longrightarrow> fst (local_list kind s) = Inr (map JObj (load s (coll_key kind uid)))"
  by (simp_all add: local_list_def split: sum.splits)

lemma local_create_offline:
  "isOfflineMode (snd (local_create kind prefix flds now s)) = isOfflineMode s"
  by (simp add: local_create_def Let_def split: sum.splits)

lemma local_delete_parts:
  "requests_of (local_delete kind ident s) = []"
  "isOfflineMode (storage_of (local_delete kind ident s)) = isOfflineMode s"
  by (simp_all add: local_delete_def Let_def split: sum.splits)

lemma fetchCategories_offline:
  "isOfflineMode s \<Longrightarrow>
   fetchCategories r s =
     (case getUserId s of
        Inl e \<Rightarrow> (Inl e, s, [])
      | Inr uid \<Rightarrow>
          if load s (coll_key ''categories'' uid) = [] then
            (Inr (map JObj defaultCategories), save (coll_key ''categories'' uid) defaultCategories s, [])
          else (Inr (map JObj (load s (coll_key ''categories'' uid))), s, []))"
  by (simp add: fetchCategories.simps [of r s] Let_def split: sum.splits)

lemma createCategory_offline:
  "isOfflineMode s \<Longrightarrow>
   createCategory c r now s =
     (case local_create ''categories'' ''cat_'' (category_fields c) now s of
        (res, s1) \<Rightarrow> (map_sum id JObj res, s1, []))"
  by (simp add: createCategory.simps [of c r now s])

lemma delete_offline:
  "isOfflineMode s \<Longrightarrow> deleteIncome i r s = local_delete ''incomes'' i s"
  "isOfflineMode s \<Longrightarrow> deleteExpense i r s = local_delete ''expenses'' i s"
  "isOfflineMode s \<Longrightarrow> deleteCategory i r s = local_delete ''categories'' i s"
  by (simp_all add: deleteIncome.simps [of i r s] deleteExpense.simps [of i r s]
        deleteCategory.simps [of i r s])

lemma offline_call:
  assumes "isOfflineMode s" and "has_local_branch c"
  shows "requests_of (call c r now s) = []"
    and "call c r now s = call c r' now s"
    and "isOfflineMode (storage_of (call c r now s))"
proof -
  have "requests_of (call c r now s) = [] \<and> call c r now s = call c r' now s
      \<and> isOfflineMode (storage_of (call c r now s))"
  proof (cases c)
    case FetchIncomes
    then show ?thesis using assms
      by (simp add: fetchIncomes_def local_list_def split: sum.splits)
  next
    case FetchExpenses
    then show ?thesis using assms
      by (simp add: fetchExpenses_def local_list_def split: sum.splits)
  next
    case FetchCategories
    then show ?thesis using assms
      by (simp add: fetchCategories_offline split: sum.splits)
  next
    case (CreateIncome t)
    then show ?thesis using assms local_create_offline [of "''incomes''" "''inc_''" "transaction_fields t" now s]
      by (auto simp: createIncome_def split: prod.splits)
  next
    case (CreateExpense t)
    then show ?thesis using assms local_create_offline [of "''expenses''" "''exp_''" "transaction_fields t" now s]
      by (auto simp: createExpense_def split: prod.splits)
  next
    case (CreateCategory t)
    then show ?thesis using assms local_create_offline [of "''categories''" "''cat_''" "category_fields t" now s]
      by (auto simp: createCategory_offline split: prod.splits)
  next
    case (DeleteIncome i)
    then show ?thesis using assms
      by (simp add: delete_offline local_delete_parts)
  next
    case (DeleteExpense i)
    then show ?thesis using assms
      by (simp add: delete_offline local_delete_parts)
  next
    case (DeleteCategory i)
    then show ?thesis using assms
      by (simp add: delete_offline local_delete_parts)
  qed (use assms in simp_all)
  then show "requests_of (call c r now s) = []"
    and "call c r now s = call c r' now s"
    and "isOfflineMode (storage_of (call c r now s))"
    by blast+
qed

lemma update_requests:
  "requests_of (updateIncome i b r s) = [(PUT, ''/incomes/'' @ i)]"
  "requests_of (updateExpense i b r s) = [(PUT, ''/expenses/'' @ i)]"
  "requests_of (updateCategory i b r s) = [(PUT, ''/categories/'' @ i)]"
  "requests_of (filterTransactions f r s) = [(POST, ''/filter'')]"
  by (simp_all add: updateIncome_def updateExpense_def updateCategory_def filterTransactions_def
        split: prod.splits sum.splits)

lemma local_listing:
  assumes "isOfflineMode s" and "getUserId s = Inr uid"
  shows "fetchIncomes r s = (Inr (map JObj (load s (coll_key ''incomes'' uid))), s, [])"
    and "fetchExpenses r s = (Inr (map JObj (load s (coll_key ''expenses'' uid))), s, [])"
    and "fetchCategories r s =
           (if load s (coll_key ''categories'' uid) = [] then
              (Inr (map JObj defaultCategories),
               save (coll_key ''categories'' uid) defaultCategories s, [])
            else (Inr (map JObj (load s (coll_key ''categories'' uid))), s, []))"
  using assms
  by (simp_all add: fetchIncomes_def fetchExpenses_def fetchCategories_offline local_list_def)

lemma local_creating:
  assumes "isOfflineMode s" and "getUserId s = Inr uid"
  shows "createIncome t r now s =
           (if categoryId t = 0 \<or> amount t \<le> 0 \<or> date t = [] then (Inl (validation_error t), s, [])
            else
              (Inr ((''id'', JStr (''inc_'' @ string_of_nat now)) # transaction_fields t),
               save (coll_key ''incomes'' uid)
                 (load s (coll_key ''incomes'' uid)
                    @ [(''id'', JStr (''inc_'' @ string_of_nat now)) # transaction_fields t]) s,
               []))"
    and "createExpense t r now s =
           (if categoryId t = 0 \<or> amount t \<le> 0 \<or> date t = [] then (Inl (validation_error t), s, [])
            else
              (Inr ((''id'', JStr (''exp_'' @ string_of_nat now)) # transaction_fields t),
               save (coll_key ''expenses'' uid)
                 (load s (coll_key ''expenses'' uid)
                    @ [(''id'', JStr (''exp_'' @ string_of_nat now)) # transaction_fields t]) s,
               []))"
    and "createCategory cat r now s =
           (Inr (JObj ((''id'', JStr (''cat_'' @ string_of_nat now)) # category_fields cat)),
            save (coll_key ''categories'' uid)
              (load s (coll_key ''categories'' uid)
                 @ [(''id'', JStr (''cat_'' @ string_of_nat now)) # category_fields cat]) s,
            [])"
  using assms
  by (simp_all add: createIncome_def createExpense_def createCategory_offline local_create_eq)

lemma local_deleting:
  assumes "isOfflineMode s" and "getUserId s = Inr uid"
  shows "deleteIncome i r s =
           (Inr (JObj [(''success'', JBool True)]),
            save (coll_key ''incomes'' uid)
              (filter (\<lambda>x. map_of x ''id'' \<noteq> Some (JStr i)) (load s (coll_key ''incomes'' uid))) s, [])"
    and "deleteExpense i r s =
           (Inr (JObj [(''success'', JBool True)]),
            save (coll_key ''expenses'' uid)
              (filter (\<lambda>x. map_of x ''id'' \<noteq> Some (JStr i)) (load s (coll_key ''expenses'' uid))) s, [])"
    and "deleteCategory i r s =
           (Inr (JObj [(''success'', JBool True)]),
            save (coll_key ''categories'' uid)
              (filter (\<lambda>x. map_of x ''id'' \<noteq> Some (JStr i)) (load s (coll_key ''categories'' uid))) s, [])"
  using assms by (simp_all add: delete_offline local_delete_eq)

text \<open>
  Claim C4, as amended. When the mode is local, every list, create and delete operation
  on incomes, expenses and categories sends no request, does not depend on what the
  network would have answered, and works on the Local Store: for a stored user that is
  not \<open>null\<close>, a listing returns the stored collection of the user's key and changes
  nothing (for categories, an empty collection is first replaced by the seven defaults); a
  creation that passes validation returns the new record, with its local id, and appends
  it to the stored collection; a deletion returns success and writes the collection back
  without the records of the given id. The three update operations and
  filterTransactions have no local branch: in every mode, local included, each sends its
  one request.
\<close>

theorem local_mode_routes_locally:
  assumes "isOfflineMode s"
  shows "(has_local_branch c \<longrightarrow>
            requests_of (call c r now s) = [] \<and> call c r now s = call c r' now s)
       \<and> (getUserId s = Inr uid \<longrightarrow>
            fetchIncomes r s = (Inr (map JObj (load s (coll_key ''incomes'' uid))), s, [])
          \<and> fetchExpenses r s = (Inr (map JObj (load s (coll_key ''expenses'' uid))), s, [])
          \<and> fetchCategories r s =
               (if load s (coll_key ''categories'' uid) = [] then
                  (Inr (map JObj defaultCategories),
                   save (coll_key ''categories'' uid) defaultCategories s, [])
                else (Inr (map JObj (load s (coll_key ''categories'' uid))), s, []))
          \<and> createIncome t r now s =
               (if categoryId t = 0 \<or> amount t \<le> 0 \<or> date t = [] then
                  (Inl (validation_error t), s, [])
                else
                  (Inr ((''id'', JStr (''inc_'' @ string_of_nat now)) # transaction_fields t),
                   save (coll_key ''incomes'' uid)
                     (load s (coll_key ''incomes'' uid)
                        @ [(''id'', JStr (''inc_'' @ string_of_nat now)) # transaction_fields t]) s,
                   []))
          \<and> createExpense t r now s =
               (if categoryId t = 0 \<or> amount t \<le> 0 \<or> date t = [] then
                  (Inl (validation_error t), s, [])
                else
                  (Inr ((''id'', JStr (''exp_'' @ string_of_nat now)) # transaction_fields t),
                   save (coll_key ''expenses'' uid)
                     (load s (coll_key ''expenses'' uid)
                        @ [(''id'', JStr (''exp_'' @ string_of_nat now)) # transaction_fields t]) s,
                   []))
          \<and> createCategory cat r now s =
               (Inr (JObj ((''id'', JStr (''cat_'' @ string_of_nat now)) # category_fields cat)),
                save (coll_key ''categories'' uid)
                  (load s (coll_key ''categories'' uid)
                     @ [(''id'', JStr (''cat_'' @ string_of_nat now)) # category_fields cat]) s,
                [])
          \<and> deleteIncome i r s =
               (Inr (JObj [(''success'', JBool True)]),
                save (coll_key ''incomes'' uid)
                  (filter (\<lambda>x. map_of x ''id'' \<noteq> Some (JStr i)) (load s (coll_key ''incomes'' uid))) s,
                [])
          \<and> deleteExpense i r s =
               (Inr (JObj [(''success'', JBool True)]),
                save (coll_key ''expenses'' uid)
                  (filter (\<lambda>x. map_of x ''id'' \<noteq> Some (JStr i)) (load s (coll_key ''expenses'' uid))) s,
                [])
          \<and> deleteCategory i r s =
               (Inr (JObj [(''success'', JBool True)]),
                save (coll_key ''categories'' uid)
                  (filter (\<lambda>x. map_of x ''id'' \<noteq> Some (JStr i)) (load s (coll_key ''categories'' uid))) s,
                []))
       \<and> requests_of (updateIncome i b r s2) = [(PUT, ''/incomes/'' @ i)]
       \<and> requests_of (updateExpense i b r s2) = [(PUT, ''/expenses/'' @ i)]
       \<and> requests_of (updateCategory i b r s2) = [(PUT, ''/categories/'' @ i)]
       \<and> requests_of (filterTransactions f r s2) = [(POST, ''/filter'')]"
proof -
  have routed: "has_local_branch c \<longrightarrow>
      requests_of (call c r now s) = [] \<and> call c r now s = call c r' now s"
    using offline_call(1,2) [OF assms] by blast
  have stored: "getUserId s = Inr uid \<longrightarrow>
            fetchIncomes r s = (Inr (map JObj (load s (coll_key ''incomes'' uid))), s, [])
          \<and> fetchExpenses r s = (Inr (map JObj (load s (coll_key ''expenses'' uid))), s, [])
          \<and> fetchCategories r s =
               (if load s (coll_key ''categories'' uid) = [] then
                  (Inr (map JObj defaultCategories),
                   save (coll_key ''categories'' uid) defaultCategories s, [])
                else (Inr (map JObj (load s (coll_key ''categories'' uid))), s, []))
          \<and> createIncome t r now s =
               (if categoryId t = 0 \<or> amount t \<le> 0 \<or> date t = [] then
                  (Inl (validation_error t), s, [])
                else
                  (Inr ((''id'', JStr (''inc_'' @ string_of_nat now)) # transaction_fields t),
                   save (coll_key ''incomes'' uid)
                     (load s (coll_key ''incomes'' uid)
                        @ [(''id'', JStr (''inc_'' @ string_of_nat now)) # transaction_fields t]) s,
                   []))
          \<and> createExpense t r now s =
               (if categoryId t = 0 \<or> amount t \<le> 0 \<or> date t = [] then
                  (Inl (validation_error t), s, [])
                else
                  (Inr ((''id'', JStr (''exp_'' @ string_of_nat now)) # transaction_fields t),
                   save (coll_key ''expenses'' uid)
                     (load s (coll_key ''expenses'' uid)
                        @ [(''id'', JStr (''exp_'' @ string_of_nat now)) # transaction_fields t]) s,
                   []))
          \<and> createCategory cat r now s =
               (Inr (JObj ((''id'', JStr (''cat_'' @ string_of_nat now)) # category_fields cat)),
                save (coll_key ''categories'' uid)
                  (load s (coll_key ''categories'' uid)
                     @ [(''id'', JStr (''cat_'' @ string_of_nat now)) # category_fields cat]) s,
                [])
          \<and> deleteIncome i r s =
               (Inr (JObj [(''success'', JBool True)]),
                save (coll_key ''incomes'' uid)
                  (filter (\<lambda>x. map_of x ''id'' \<noteq> Some (JStr i)) (load s (coll_key ''incomes'' uid))) s,
                [])
          \<and> deleteExpense i r s =
               (Inr (JObj [(''success'', JBool True)]),
                save (coll_key ''expenses'' uid)
                  (filter (\<lambda>x. map_of x ''id'' \<noteq> Some (JStr i)) (load s (coll_key ''expenses'' uid))) s,
                [])
          \<and> deleteCategory i r s =
               (Inr (JObj [(''success'', JBool True)]),
                save (coll_key ''categories'' uid)
                  (filter (\<lambda>x. map_of x ''id'' \<noteq> Some (JStr i)) (load s (coll_key ''categories'' uid))) s,
                [])"
    using local_listing [OF assms] local_creating [OF assms] local_deleting [OF assms]
    by (intro impI conjI) blast+
  show ?thesis
    using routed stored update_requests by blast
qed

theorem local_mode_routes_locally_witness:
  "isOfflineMode offline_storage \<and> has_local_branch (CreateIncome salary)
   \<and> getUserId offline_storage = Inr (Some (JNum 7))
   \<and> requests_of (call (CreateIncome salary) network_down 1000 offline_storage) = []
   \<and> call (CreateIncome salary) network_down 1000 offline_storage
       = call (CreateIncome salary) (Resolved 200 JNull) 1000 offline_storage
   \<and> result_of (createIncome salary network_down 1000 offline_storage)
       = Inr [(''id'', JStr ''inc_1000''), (''name'', JStr ''Salary''), (''categoryId'', JNum 1),
              (''amount'', JNum 5000), (''date'', JStr ''2025-01-01'')]
   \<and> load (storage_of (createIncome salary network_down 1000 offline_storage)) ''incomes_7''
       = [[(''id'', JStr ''inc_1000''), (''name'', JStr ''Salary''), (''categoryId'', JNum 1),
           (''amount'', JNum 5000), (''date'', JStr ''2025-01-01'')]]"
proof -
  have h: "has_local_branch (CreateIncome salary)" by simp
  have valid: "\<not> (categoryId salary = 0 \<or> amount salary \<le> 0 \<or> date salary = [])"
    by (simp add: salary_def)
  have empty: "load offline_storage k = []" for k
    by (simp add: load_def offline_storage_def online_storage_def empty_storage_def)
  have new: "(''id'', JStr (''inc_'' @ string_of_nat 1000)) # transaction_fields salary
      = [(''id'', JStr ''inc_1000''), (''name'', JStr ''Salary''), (''categoryId'', JNum 1),
         (''amount'', JNum 5000), (''date'', JStr ''2025-01-01'')]"
    by (simp add: salary_def transaction_fields_def opt_field_def string_of_nat.simps digit_char_def)
  note T = local_mode_routes_locally [OF offline_storage_facts(1),
      of "CreateIncome salary" network_down 1000 "Resolved 200 JNull" "Some (JNum 7)" salary]
  from T h have routed: "requests_of (call (CreateIncome salary) network_down 1000 offline_storage) = []
      \<and> call (CreateIncome salary) network_down 1000 offline_storage
          = call (CreateIncome salary) (Resolved 200 JNull) 1000 offline_storage"
    by blast
  from T offline_storage_facts(2) valid
  have created: "createIncome salary network_down 1000 offline_storage =
      (Inr ((''id'', JStr (''inc_'' @ string_of_nat 1000)) # transaction_fields salary),
       save (coll_key ''incomes'' (Some (JNum 7)))
         (load offline_storage (coll_key ''incomes'' (Some (JNum 7)))
            @ [(''id'', JStr (''inc_'' @ string_of_nat 1000)) # transaction_fields salary]) offline_storage,
       [])"
    by simp
  have res: "result_of (createIncome salary network_down 1000 offline_storage)
       = Inr [(''id'', JStr ''inc_1000''), (''name'', JStr ''Salary''), (''categoryId'', JNum 1),
              (''amount'', JNum 5000), (''date'', JStr ''2025-01-01'')]"
    unfolding created new by simp
  have sto: "load (storage_of (createIncome salary network_down 1000 offline_storage)) ''incomes_7''
       = [[(''id'', JStr ''inc_1000''), (''name'', JStr ''Salary''), (''categoryId'', JNum 1),
           (''amount'', JNum 5000), (''date'', JStr ''2025-01-01'')]]"
    unfolding created new by (simp add: offline_storage_facts(3) empty)
  show ?thesis
    using offline_storage_facts(1,2) h routed res sto by blast
qed

text \<open>
  Counterexample to claim C4 as stated: with the mode local, updateIncome sends its PUT
  request and filterTransactions its POST request.
\<close>

theorem update_ignores_local_mode:
  "isOfflineMode offline_storage
   \<and> requests_of (call (UpdateIncome ''inc_1000'' (JObj [(''amount'', JNum 10)])) (Resolved 200 (JObj [])) 1000
                   offline_storage) = [(PUT, ''/incomes/inc_1000'')]
   \<and> requests_of (call (FilterTransactions (JObj [(''type'', JStr ''income'')])) (Resolved 200 (JArr [])) 1000
                   offline_storage) = [(POST, ''/filter'')]"
  by (simp add: offline_storage_facts updateIncome_def filterTransactions_def axios_request_def
        list_try_def)





section \<open>Falling back after a network error\<close>

lemma went_offline [simp]:
  "isOfflineMode (s\<lparr>backendMode := Some ''offline''\<rparr>)"
  "getUserId (s\<lparr>backendMode := Some ''offline''\<rparr>) = getUserId s"
  "load (s\<lparr>backendMode := Some ''offline''\<rparr>) k = load s k"
  by (simp_all add: isOfflineMode_def getUserId_def load_def)

lemma axios_network:
  assumes "code = Some ''ERR_NETWORK'' \<or> msg = ''Network Error''"
  shows "is_network_error (AxiosError code msg None)"
    and "\<exists>s1. axios_request (Rejected code msg None) s = (Inl (AxiosError code msg None), s1)
            \<and> s1\<lparr>backendMode := Some ''offline''\<rparr> = s\<lparr>backendMode := Some ''offline''\<rparr>"
  using assms
  by (auto simp: is_network_error_def axios_request_def response_interceptor_def)


lemma create_try_network:
  assumes "code = Some ''ERR_NETWORK'' \<or> msg = ''Network Error''"
  shows "\<exists>s1. create_try t (Rejected code msg None) s = (Inl (AxiosError code msg None), s1)
            \<and> s1\<lparr>backendMode := Some ''offline''\<rparr> = s\<lparr>backendMode := Some ''offline''\<rparr>"
  using axios_network(2) [OF assms, of s] by (auto simp: create_try_def)


lemma create_network:
  assumes on: "\<not> isOfflineMode s"
    and net: "code = Some ''ERR_NETWORK'' \<or> msg = ''Network Error''"
  shows "\<not> (categoryId t = 0 \<or> amount t \<le> 0 \<or> date t = []) \<Longrightarrow>
         createIncome t (Rejected code msg None) now s
           = with_request (POST, ''/incomes'') (createIncome t r' now (s\<lparr>backendMode := Some ''offline''\<rparr>))"
    and "\<not> (categoryId t = 0 \<or> amount t \<le> 0 \<or> date t = []) \<Longrightarrow>
         createExpense t (Rejected code msg None) now s
           = with_request (POST, ''/expenses'') (createExpense t r' now (s\<lparr>backendMode := Some ''offline''\<rparr>))"
    and "createCategory c (Rejected code msg None) now s
           = with_request (POST, ''/categories'') (createCategory c r' now (s\<lparr>backendMode := Some ''offline''\<rparr>))"
proof -
  note ne = axios_network(1) [OF net]
  obtain s1 where s1: "create_try t (Rejected code msg None) s = (Inl (AxiosError code msg None), s1)"
      "s1\<lparr>backendMode := Some ''offline''\<rparr> = s\<lparr>backendMode := Some ''offline''\<rparr>"
    using create_try_network [OF net] by blast
  show "\<not> (categoryId t = 0 \<or> amount t \<le> 0 \<or> date t = []) \<Longrightarrow>
         createIncome t (Rejected code msg None) now s
           = with_request (POST, ''/incomes'') (createIncome t r' now (s\<lparr>backendMode := Some ''offline''\<rparr>))"
    using on ne s1 by (simp add: createIncome_def with_request_def split: prod.splits)
  show "\<not> (categoryId t = 0 \<or> amount t \<le> 0 \<or> date t = []) \<Longrightarrow>
         createExpense t (Rejected code msg None) now s
           = with_request (POST, ''/expenses'') (createExpense t r' now (s\<lparr>backendMode := Some ''offline''\<rparr>))"
    using on ne s1 by (simp add: createExpense_def with_request_def split: prod.splits)
  obtain s2 where s2: "axios_request (Rejected code msg None) s = (Inl (AxiosError code msg None), s2)"
      "s2\<lparr>backendMode := Some ''offline''\<rparr> = s\<lparr>backendMode := Some ''offline''\<rparr>"
    using axios_network(2) [OF net] by blast
  have "createCategory c (Rejected code msg None) now s
           = with_request (POST, ''/categories'')
               (createCategory c (Rejected code msg None) now (s\<lparr>backendMode := Some ''offline''\<rparr>))"
    using on ne s2 by (simp add: createCategory.simps [of _ _ _ s])
  then show "createCategory c (Rejected code msg None) now s
           = with_request (POST, ''/categories'') (createCategory c r' now (s\<lparr>backendMode := Some ''offline''\<rparr>))"
    by (simp add: createCategory_offline)
qed






lemma mode_resets:
  "\<not> isOfflineMode (forceOnlineMode s)"
  "(\<exists>t. token s = Some t \<and> t \<noteq> []) \<and> currentUser s \<noteq> None \<Longrightarrow> \<not> isOfflineMode (app_mount s)"
  by (auto simp: forceOnlineMode_def app_mount_def isOfflineMode_def)




section \<open>Server errors\<close>

text \<open>
  A request that the server answers with an error status reaches the caller as an error,
  and the storage is what the response interceptor leaves: unchanged for a status other
  than 401; without token and user, and with the mode set to \<open>offline\<close>, for 401.
\<close>

lemma http_error_surfaces:
  assumes on: "\<not> isOfflineMode s"
    and http: "code \<noteq> Some ''ERR_NETWORK''" "msg \<noteq> ''Network Error''"
    and sent: "requests_of (call c (Rejected code msg (Some (status, body))) now s) \<noteq> []"
  shows "(\<exists>e. result_of (call c (Rejected code msg (Some (status, body))) now s) = Inl e)
       \<and> storage_of (call c (Rejected code msg (Some (status, body))) now s)
           = response_interceptor code msg (Some (status, body)) s"
proof -
  have ne: "\<not> is_network_error (AxiosError code msg (Some (status, body)))"
    using http by (simp add: is_network_error_def)
  have ax: "axios_request (Rejected code msg (Some (status, body))) s =
      (Inl (AxiosError code msg (Some (status, body))), response_interceptor code msg (Some (status, body)) s)"
    by (simp add: axios_request_def)
  show ?thesis
  proof (cases c)
    case FetchIncomes
    then show ?thesis using on ne ax by (simp add: fetchIncomes_def list_try_def)
  next
    case FetchExpenses
    then show ?thesis using on ne ax by (simp add: fetchExpenses_def list_try_def)
  next
    case FetchCategories
    then show ?thesis using on ne ax by (simp add: fetchCategories.simps [of _ s] list_try_def)
  next
    case (CreateIncome t)
    then show ?thesis using on ne ax sent by (auto simp: createIncome_def create_try_def)
  next
    case (CreateExpense t)
    then show ?thesis using on ne ax sent by (auto simp: createExpense_def create_try_def)
  next
    case (CreateCategory t)
    then show ?thesis using on ne ax by (simp add: createCategory.simps [of _ _ _ s])
  next
    case (UpdateIncome i b)
    then show ?thesis using ax by (simp add: updateIncome_def)
  next
    case (UpdateExpense i b)
    then show ?thesis using ax by (simp add: updateExpense_def)
  next
    case (UpdateCategory i b)
    then show ?thesis using ax by (simp add: updateCategory_def)
  next
    case (DeleteIncome i)
    then show ?thesis using on ne ax by (simp add: deleteIncome.simps [of _ _ s])
  next
    case (DeleteExpense i)
    then show ?thesis using on ne ax by (simp add: deleteExpense.simps [of _ _ s])
  next
    case (DeleteCategory i)
    then show ?thesis using on ne ax by (simp add: deleteCategory.simps [of _ _ s])
  next
    case (FilterTransactions f)
    then show ?thesis using ax by (simp add: filterTransactions_def list_try_def)
  qed
qed

lemma rejected_keeps_mode:
  assumes "\<not> isOfflineMode s"
    and "code \<noteq> Some ''ERR_NETWORK''" and "code \<noteq> Some ''ECONNABORTED''" and "msg \<noteq> ''Network Error''"
    and "status \<noteq> 401"
    and "requests_of (call c (Rejected code msg (Some (status, body))) now s) \<noteq> []"
  shows "(\<exists>e. result_of (call c (Rejected code msg (Some (status, body))) now s) = Inl e)
       \<and> storage_of (call c (Rejected code msg (Some (status, body))) now s) = s"
  using http_error_surfaces [OF assms(1,2,4,6)] assms(3,4,5)
  by (simp add: response_interceptor_def)

lemma unauthorized_tears_down:
  assumes "\<not> isOfflineMode s"
    and "code \<noteq> Some ''ERR_NETWORK''" and "msg \<noteq> ''Network Error''"
    and "requests_of (call c (Rejected code msg (Some (401, body))) now s) \<noteq> []"
  shows "(\<exists>e. result_of (call c (Rejected code msg (Some (401, body))) now s) = Inl e)
       \<and> storage_of (call c (Rejected code msg (Some (401, body))) now s)
           = s\<lparr>token := None, currentUser := None, backendMode := Some ''offline''\<rparr>"
  using http_error_surfaces [OF assms] by (simp add: response_interceptor_def)

text \<open>
  Claim C2, at an input where the code departs from it. In remote mode, createIncome
  answered with status 401 throws to the caller and stores no record; but the response
  interceptor has set the mode to \<open>offline\<close>. The next createIncome then sends no request
  and stores its record locally, under the key of \<open>offline_user\<close>.
\<close>

theorem unauthorized_sets_local_mode:
  "\<not> isOfflineMode online_storage
   \<and> result_of (call (CreateIncome salary) unauthorized 1000 online_storage)
       = Inl (HttpFailure 401 (JObj [(''message'', JStr ''Token expired'')]))
   \<and> isOfflineMode (storage_of (call (CreateIncome salary) unauthorized 1000 online_storage))
   \<and> backendMode (storage_of (call (CreateIncome salary) unauthorized 1000 online_storage)) = Some ''offline''
   \<and> requests_of (call (CreateIncome salary) bad_request 1001
         (storage_of (call (CreateIncome salary) unauthorized 1000 online_storage))) = []
   \<and> result_of (call (CreateIncome salary) bad_request 1001
         (storage_of (call (CreateIncome salary) unauthorized 1000 online_storage)))
       = Inr (JObj [(''id'', JStr ''inc_1001''), (''name'', JStr ''Salary''), (''categoryId'', JNum 1),
                    (''amount'', JNum 5000), (''date'', JStr ''2025-01-01'')])"
proof -
  have first: "createIncome salary unauthorized 1000 online_storage =
      (Inl (HttpFailure 401 (JObj [(''message'', JStr ''Token expired'')])),
       online_storage\<lparr>token := None, currentUser := None, backendMode := Some ''offline''\<rparr>,
       [(POST, ''/incomes'')])"
    by (simp add: createIncome_def create_try_def axios_request_def unauthorized_def
          response_interceptor_def is_network_error_def salary_def)
  have uid: "getUserId (online_storage\<lparr>token := None, currentUser := None, backendMode := Some ''offline''\<rparr>)
      = Inr (Some (JStr ''offline_user''))"
    by (simp add: getUserId_def)
  have second: "result_of (createIncome salary bad_request 1001
        (online_storage\<lparr>token := None, currentUser := None, backendMode := Some ''offline''\<rparr>))
      = Inr [(''id'', JStr ''inc_1001''), (''name'', JStr ''Salary''), (''categoryId'', JNum 1),
                    (''amount'', JNum 5000), (''date'', JStr ''2025-01-01'')]
    \<and> requests_of (createIncome salary bad_request 1001
        (online_storage\<lparr>token := None, currentUser := None, backendMode := Some ''offline''\<rparr>)) = []"
    by (simp add: createIncome_def isOfflineMode_def local_create_eq [OF uid] salary_def
          transaction_fields_def opt_field_def string_of_nat.simps digit_char_def)
  show ?thesis
    using second by (simp add: first)
qed

section \<open>Responses to login and register\<close>

text \<open>
  Every format test asks for a truthy user, so a token is never extracted without one:
  the user built from the form's own fields is never used.
\<close>

lemma extract_auth_user:
  "truthy_val (fst (extract_auth d)) \<Longrightarrow> truthy_val (snd (extract_auth d))"
  by (simp add: extract_auth_def split: if_splits)

lemma auth_try_ignores_fallback:
  "auth_try fallback_user r s = auth_try other_user r s"
proof (cases r)
  case (Resolved status body)
  obtain tok usr where e: "extract_auth body = (tok, usr)"
    by (cases "extract_auth body")
  have "truthy_val tok \<Longrightarrow> truthy_val usr"
    using extract_auth_user [of body] e by simp
  then show ?thesis
    using Resolved e by (auto simp: auth_try_def axios_request_def Let_def)
next
  case (Rejected code msg resp)
  then show ?thesis
    by (simp add: auth_try_def axios_request_def)
qed

lemma auth_try_token:
  "auth_try fb r s = (Inr (u, t), s') \<Longrightarrow> t \<noteq> [] \<and> token s' = Some t"
  by (cases r)
     (auto simp: auth_try_def axios_request_def Let_def handleLogin_def
           split: if_splits prod.splits option.splits json.splits)

lemma login_token_nonempty:
  assumes "login_handleSubmit email password r now s = (Authenticated u t, s', qs)"
  shows "t \<noteq> [] \<and> token s' = Some t"
proof (cases "email = [] \<or> password = []")
  case True
  with assms show ?thesis by (simp add: login_handleSubmit_def)
next
  case False
  obtain res s1 where a: "auth_try
                (JObj [(''email'', JStr email),
                       (''username'', JStr (takeWhile (\<lambda>c. c \<noteq> CHR ''@'') email))]) r s = (res, s1)"
    by (cases "auth_try
                (JObj [(''email'', JStr email),
                       (''username'', JStr (takeWhile (\<lambda>c. c \<noteq> CHR ''@'') email))]) r s")
  show ?thesis
  proof (cases res)
    case (Inr ut)
    obtain u' t' where ut: "ut = (u', t')" by (cases ut)
    with assms False a Inr have "t' = t" "s1 = s'"
      by (simp_all add: login_handleSubmit_def)
    with auth_try_token a Inr ut show ?thesis by blast
  next
    case (Inl e)
    with assms False a show ?thesis
      by (auto simp: login_handleSubmit_def Let_def handleLogin_def split: if_splits option.splits)
  qed
qed

text \<open>
  The defect behind claim C1 in general: whatever unrecognised body the server sends,
  login never reports the invalid response; it signs in with an offline account or shows
  the message of the offline branch.
\<close>

lemma unrecognised_login_never_reports_it:
  assumes "email \<noteq> []" and "password \<noteq> []" and "body \<noteq> JNull"
    and "\<not> truthy_val (fst (extract_auth body))"
  shows "login_handleSubmit email password (Resolved status body) now s =
     (case find (\<lambda>u. map_of u ''email'' = Some (JStr email)
                     \<and> map_of u ''password'' = Some (JStr password)) (load_users s) of
        Some u \<Rightarrow>
          (Authenticated (Some (JObj (with_field u ''password'' None))) (''offline_'' @ string_of_nat now),
           s\<lparr>token := Some (''offline_'' @ string_of_nat now),
              currentUser := Some (JObj (with_field u ''password'' None)),
              backendMode := Some ''offline''\<rparr>,
           [(POST, ''/login'')])
      | None \<Rightarrow>
          (AuthError (Some (JStr ''Invalid email or password. (Offline Mode - Create an account first)'')),
           s, [(POST, ''/login'')]))"
proof -
  obtain tok usr where e: "extract_auth body = (tok, usr)"
    by (cases "extract_auth body")
  have attempt: "auth_try fb (Resolved status body) s
      = (Inl (PlainError ''Invalid response from server''), s)" for fb
    using assms(3,4) e by (simp add: auth_try_def axios_request_def)
  have off: "goes_offline (PlainError ''Invalid response from server'')"
    by (simp add: goes_offline_def)
  show ?thesis
    using assms(1,2)
    by (simp add: login_handleSubmit_def attempt off handleLogin_def Let_def split: option.splits)
qed

text \<open>
  Claim C1, at an input where the code departs from it. The response matches none of
  the four formats, so the \<open>try\<close> block throws \<open>Invalid response from server\<close>; the
  \<open>catch\<close> around it takes every error without a response for a network error and
  turns to the offline accounts. With a matching offline account the login succeeds and
  token, user and mode are written; without one, the message shown is the one of the
  offline branch.
\<close>

theorem unrecognised_login_goes_offline:
  "fst (extract_auth (JObj [(''message'', JStr ''ok'')])) = Some JNull
   \<and> token local_account_storage = None \<and> currentUser local_account_storage = None
   \<and> backendMode local_account_storage = None
   \<and> login_handleSubmit ''ann@example.com'' ''secret1'' (Resolved 200 (JObj [(''message'', JStr ''ok'')])) 1000
        local_account_storage
       = (Authenticated (Some (JObj [(''id'', JStr ''user_1''), (''username'', JStr ''ann''),
                                     (''email'', JStr ''ann@example.com'')])) ''offline_1000'',
          local_account_storage
            \<lparr>token := Some ''offline_1000'',
             currentUser := Some (JObj [(''id'', JStr ''user_1''), (''username'', JStr ''ann''),
                                        (''email'', JStr ''ann@example.com'')]),
             backendMode := Some ''offline''\<rparr>,
          [(POST, ''/login'')])
   \<and> login_handleSubmit ''ann@example.com'' ''secret1'' (Resolved 200 (JObj [(''message'', JStr ''ok'')])) 1000
        empty_storage
       = (AuthError (Some (JStr ''Invalid email or password. (Offline Mode - Create an account first)'')),
          empty_storage, [(POST, ''/login'')])"
proof -
  have ex: "extract_auth (JObj [(''message'', JStr ''ok'')]) = (Some JNull, Some JNull)"
    by (simp add: extract_auth_def)
  have attempt: "auth_try fb (Resolved 200 (JObj [(''message'', JStr ''ok'')])) s
      = (Inl (PlainError ''Invalid response from server''), s)" for fb s
    by (simp add: auth_try_def axios_request_def ex)
  have off: "goes_offline (PlainError ''Invalid response from server'')"
    by (simp add: goes_offline_def)
  have with_account: "login_handleSubmit ''ann@example.com'' ''secret1''
        (Resolved 200 (JObj [(''message'', JStr ''ok'')])) 1000 local_account_storage
       = (Authenticated (Some (JObj [(''id'', JStr ''user_1''), (''username'', JStr ''ann''),
                                     (''email'', JStr ''ann@example.com'')])) ''offline_1000'',
          local_account_storage
            \<lparr>token := Some ''offline_1000'',
             currentUser := Some (JObj [(''id'', JStr ''user_1''), (''username'', JStr ''ann''),
                                        (''email'', JStr ''ann@example.com'')]),
             backendMode := Some ''offline''\<rparr>,
          [(POST, ''/login'')])"
    by (simp add: login_handleSubmit_def attempt off load_users_def local_account_storage_def
          with_field_def handleLogin_def string_of_nat.simps digit_char_def Let_def)
  have without_account: "login_handleSubmit ''ann@example.com'' ''secret1''
        (Resolved 200 (JObj [(''message'', JStr ''ok'')])) 1000 empty_storage
       = (AuthError (Some (JStr ''Invalid email or password. (Offline Mode - Create an account first)'')),
          empty_storage, [(POST, ''/login'')])"
    by (simp add: login_handleSubmit_def attempt off load_users_def empty_storage_def)
  show ?thesis
    unfolding with_account without_account
    by (simp add: ex local_account_storage_def empty_storage_def)
qed

text \<open>
  Claim C6, at an input where the code departs from it. The response carries a token and
  no user. Login does not proceed with a user built from the email: it treats the
  response as invalid and turns to the offline accounts. Register, for the same response,
  creates an offline account and an offline token.
\<close>

theorem token_without_user_is_refused:
  "login_handleSubmit ''ann@example.com'' ''secret1'' (Resolved 200 (JObj [(''token'', JStr ''abc123'')])) 1000
        empty_storage
       = (AuthError (Some (JStr ''Invalid email or password. (Offline Mode - Create an account first)'')),
          empty_storage, [(POST, ''/login'')])
   \<and> fst (register_handleSubmit ''ann'' ''ann@example.com'' ''secret1'' ''secret1''
             (Resolved 200 (JObj [(''token'', JStr ''abc123'')])) 1000 1001 empty_storage)
       = Authenticated (Some (JObj [(''id'', JStr ''user_1000''), (''username'', JStr ''ann''),
                                    (''email'', JStr ''ann@example.com'')])) ''offline_1001''
   \<and> backendMode (fst (snd (register_handleSubmit ''ann'' ''ann@example.com'' ''secret1'' ''secret1''
             (Resolved 200 (JObj [(''token'', JStr ''abc123'')])) 1000 1001 empty_storage)))
       = Some ''offline''"
proof -
  have ex: "extract_auth (JObj [(''token'', JStr ''abc123'')]) = (Some JNull, Some JNull)"
    by (simp add: extract_auth_def)
  have attempt: "auth_try fb (Resolved 200 (JObj [(''token'', JStr ''abc123'')])) s
      = (Inl (PlainError ''Invalid response from server''), s)" for fb s
    by (simp add: auth_try_def axios_request_def ex)
  have off: "goes_offline (PlainError ''Invalid response from server'')"
    by (simp add: goes_offline_def)
  have login: "login_handleSubmit ''ann@example.com'' ''secret1''
        (Resolved 200 (JObj [(''token'', JStr ''abc123'')])) 1000 empty_storage
       = (AuthError (Some (JStr ''Invalid email or password. (Offline Mode - Create an account first)'')),
          empty_storage, [(POST, ''/login'')])"
    by (simp add: login_handleSubmit_def attempt off load_users_def empty_storage_def)
  have register: "register_handleSubmit ''ann'' ''ann@example.com'' ''secret1'' ''secret1''
             (Resolved 200 (JObj [(''token'', JStr ''abc123'')])) 1000 1001 empty_storage
       = (Authenticated (Some (JObj [(''id'', JStr ''user_1000''), (''username'', JStr ''ann''),
                                    (''email'', JStr ''ann@example.com'')])) ''offline_1001'',
          empty_storage
            \<lparr>users := Some [[(''id'', JStr ''user_1000''), (''username'', JStr ''ann''),
                             (''email'', JStr ''ann@example.com''), (''password'', JStr ''secret1'')]],
             token := Some ''offline_1001'',
             currentUser := Some (JObj [(''id'', JStr ''user_1000''), (''username'', JStr ''ann''),
                                        (''email'', JStr ''ann@example.com'')]),
             backendMode := Some ''offline''\<rparr>,
          [(POST, ''/register'')])"
    by (simp add: register_handleSubmit_def attempt off load_users_def empty_storage_def
          with_field_def handleLogin_def string_of_nat.simps digit_char_def Let_def)
  show ?thesis
    unfolding login register by simp
qed

section \<open>The ids of the stored transactions through a session\<close>

text \<open>
  What each operation does to the collections of the Local Store. A request and its
  interceptors leave them alone; the listings of incomes and expenses, the updates and
  the filter change none; the listing and the creation of categories write the category
  collection only; a deletion filters one collection, and the creation of a transaction
  appends one record to one collection.
\<close>

lemma load_axios:
  "axios_request r s = (res, s1) \<Longrightarrow> load s1 k = load s k"
  by (cases r) (auto simp: axios_request_def response_interceptor_def load_def Let_def split: if_splits)

lemma load_list_try:
  "list_try kind r s = (res, s1) \<Longrightarrow> load s1 k = load s k"
  by (cases "axios_request r s") (auto simp: list_try_def dest: load_axios split: sum.splits)

lemma load_create_try:
  "create_try t r s = (res, s1) \<Longrightarrow> load s1 k = load s k"
  by (cases "axios_request r s") (auto simp: create_try_def dest: load_axios split: sum.splits if_splits)

lemma load_local_list:
  "local_list kind s = (res, s1) \<Longrightarrow> s1 = s"
  by (auto simp: local_list_def split: sum.splits)

lemma load_local_create:
  "local_create kind prefix flds now s = (res, s1) \<Longrightarrow>
   load s1 k = load s k
   \<or> ((\<exists>u. k = coll_key kind u)
      \<and> load s1 k = load s k @ [(''id'', JStr (prefix @ string_of_nat now)) # flds])"
  by (auto simp: local_create_def Let_def split: sum.splits if_splits)

lemma load_local_delete:
  "local_delete kind ident s = (res, s1, qs) \<Longrightarrow>
   load s1 k = load s k \<or> load s1 k = filter (\<lambda>x. map_of x ''id'' \<noteq> Some (JStr ident)) (load s k)"
  by (auto simp: local_delete_def Let_def split: sum.splits if_splits)

lemma load_fetchIncomes: "load (storage_of (fetchIncomes r s)) k = load s k"
proof (cases "isOfflineMode s")
  case True
  then show ?thesis
    by (auto simp: fetchIncomes_def split: prod.splits dest: load_local_list)
next
  case False
  obtain res s1 where t: "list_try ''incomes'' r s = (res, s1)"
    by (cases "list_try ''incomes'' r s")
  note l = load_list_try [OF t]
  show ?thesis
    using False t l
    by (auto simp: fetchIncomes_def split: prod.splits sum.splits dest!: load_local_list)
qed


lemma load_fetchExpenses: "load (storage_of (fetchExpenses r s)) k = load s k"
proof (cases "isOfflineMode s")
  case True
  then show ?thesis
    by (auto simp: fetchExpenses_def split: prod.splits dest: load_local_list)
next
  case False
  obtain res s1 where t: "list_try ''expenses'' r s = (res, s1)"
    by (cases "list_try ''expenses'' r s")
  note l = load_list_try [OF t]
  show ?thesis
    using False t l
    by (auto simp: fetchExpenses_def split: prod.splits sum.splits dest!: load_local_list)
qed

lemma load_without_branch:
  "\<not> has_local_branch c \<Longrightarrow> load (storage_of (call c r now s)) k = load s k"
proof (cases c)
  case (UpdateIncome i b)
  obtain res s1 where t: "axios_request r s = (res, s1)" by (cases "axios_request r s")
  show ?thesis using UpdateIncome t load_axios [OF t]
    by (auto simp: updateIncome_def split: sum.splits)
next
  case (UpdateExpense i b)
  obtain res s1 where t: "axios_request r s = (res, s1)" by (cases "axios_request r s")
  show ?thesis using UpdateExpense t load_axios [OF t]
    by (auto simp: updateExpense_def split: sum.splits)
next
  case (UpdateCategory i b)
  obtain res s1 where t: "axios_request r s = (res, s1)" by (cases "axios_request r s")
  show ?thesis using UpdateCategory t load_axios [OF t]
    by (auto simp: updateCategory_def split: sum.splits)
next
  case (FilterTransactions f)
  obtain res s1 where t: "list_try ''transactions'' r s = (res, s1)"
    by (cases "list_try ''transactions'' r s")
  show ?thesis using FilterTransactions t load_list_try [OF t]
    by (auto simp: filterTransactions_def)
qed simp_all

text \<open>A key of a transaction collection is no key of a category collection.\<close>

lemma coll_key_apart [simp]:
  "coll_key ''incomes'' u \<noteq> coll_key ''expenses'' v"
  "coll_key ''expenses'' u \<noteq> coll_key ''incomes'' v"
  "coll_key ''categories'' u \<noteq> coll_key ''incomes'' v"
  "coll_key ''categories'' u \<noteq> coll_key ''expenses'' v"
  "coll_key ''incomes'' u \<noteq> coll_key ''categories'' v"
  "coll_key ''expenses'' u \<noteq> coll_key ''categories'' v"
  by (simp_all add: coll_key_def)

lemma load_fetchCategories:
  assumes "\<forall>u. k \<noteq> coll_key ''categories'' u"
  shows "load (storage_of (fetchCategories r s)) k = load s k"
proof -
  have local: "load (storage_of (fetchCategories q t)) k = load t k" if "isOfflineMode t" for q t
    using that assms by (auto simp: fetchCategories_offline split: sum.splits)
  show ?thesis
  proof (cases "isOfflineMode s")
    case True
    then show ?thesis by (rule local)
  next
    case False
    obtain res s1 where t: "list_try ''categories'' r s = (res, s1)"
      by (cases "list_try ''categories'' r s")
    note l = load_list_try [OF t]
    have inner: "load (storage_of (fetchCategories r (s1\<lparr>backendMode := Some ''offline''\<rparr>))) k = load s k"
      using local [of "s1\<lparr>backendMode := Some ''offline''\<rparr>" r] l by simp
    show ?thesis
      using False t l inner
      by (auto simp: fetchCategories.simps [of r s] split: sum.splits)
  qed
qed

lemma load_createCategory:
  assumes "\<forall>u. k \<noteq> coll_key ''categories'' u"
  shows "load (storage_of (createCategory c r now s)) k = load s k"
proof -
  have local: "load (storage_of (createCategory c q now t)) k = load t k" if "isOfflineMode t" for q t
  proof -
    obtain res t1 where lc: "local_create ''categories'' ''cat_'' (category_fields c) now t = (res, t1)"
      by (cases "local_create ''categories'' ''cat_'' (category_fields c) now t")
    from load_local_create [OF lc, of k] assms have "load t1 k = load t k" by blast
    then show ?thesis
      using that lc by (simp add: createCategory_offline)
  qed
  show ?thesis
  proof (cases "isOfflineMode s")
    case True
    then show ?thesis by (rule local)
  next
    case False
    obtain res s1 where t: "axios_request r s = (res, s1)"
      by (cases "axios_request r s")
    note l = load_axios [OF t]
    have inner: "load (storage_of (createCategory c r now (s1\<lparr>backendMode := Some ''offline''\<rparr>))) k = load s k"
      using local [of "s1\<lparr>backendMode := Some ''offline''\<rparr>" r] l by simp
    show ?thesis
      using False t l inner
      by (auto simp: createCategory.simps [of c r now s] split: sum.splits)
  qed
qed

lemma load_delete:
  "load (storage_of (deleteIncome i r s)) k = load s k
   \<or> load (storage_of (deleteIncome i r s)) k
       = filter (\<lambda>x. map_of x ''id'' \<noteq> Some (JStr i)) (load s k)"
  "load (storage_of (deleteExpense i r s)) k = load s k
   \<or> load (storage_of (deleteExpense i r s)) k
       = filter (\<lambda>x. map_of x ''id'' \<noteq> Some (JStr i)) (load s k)"
  "load (storage_of (deleteCategory i r s)) k = load s k
   \<or> load (storage_of (deleteCategory i r s)) k
       = filter (\<lambda>x. map_of x ''id'' \<noteq> Some (JStr i)) (load s k)"
proof -
  have local: "load (storage_of (local_delete kind i t)) k = load t k
      \<or> load (storage_of (local_delete kind i t)) k
          = filter (\<lambda>x. map_of x ''id'' \<noteq> Some (JStr i)) (load t k)" for kind t
  proof -
    obtain res t1 qs where ld: "local_delete kind i t = (res, t1, qs)"
      by (cases "local_delete kind i t")
    from load_local_delete [OF ld, of k] ld show ?thesis by simp
  qed
  obtain res s1 where t: "axios_request r s = (res, s1)"
    by (cases "axios_request r s")
  note l = load_axios [OF t]
  have inner: "load (storage_of (local_delete kind i (s1\<lparr>backendMode := Some ''offline''\<rparr>))) k = load s k
      \<or> load (storage_of (local_delete kind i (s1\<lparr>backendMode := Some ''offline''\<rparr>))) k
          = filter (\<lambda>x. map_of x ''id'' \<noteq> Some (JStr i)) (load s k)" for kind
    using local [of kind "s1\<lparr>backendMode := Some ''offline''\<rparr>"] l by simp
  show "load (storage_of (deleteIncome i r s)) k = load s k
   \<or> load (storage_of (deleteIncome i r s)) k
       = filter (\<lambda>x. map_of x ''id'' \<noteq> Some (JStr i)) (load s k)"
  proof (cases "isOfflineMode s")
    case True
    then show ?thesis using local [of "''incomes''" s] by (simp add: delete_offline)
  next
    case False
    then show ?thesis
      using t l inner [of "''incomes''"]
      by (auto simp: deleteIncome.simps [of i r s] delete_offline split: sum.splits)
  qed
  show "load (storage_of (deleteExpense i r s)) k = load s k
   \<or> load (storage_of (deleteExpense i r s)) k
       = filter (\<lambda>x. map_of x ''id'' \<noteq> Some (JStr i)) (load s k)"
  proof (cases "isOfflineMode s")
    case True
    then show ?thesis using local [of "''expenses''" s] by (simp add: delete_offline)
  next
    case False
    then show ?thesis
      using t l inner [of "''expenses''"]
      by (auto simp: deleteExpense.simps [of i r s] delete_offline split: sum.splits)
  qed
  show "load (storage_of (deleteCategory i r s)) k = load s k
   \<or> load (storage_of (deleteCategory i r s)) k
       = filter (\<lambda>x. map_of x ''id'' \<noteq> Some (JStr i)) (load s k)"
  proof (cases "isOfflineMode s")
    case True
    then show ?thesis using local [of "''categories''" s] by (simp add: delete_offline)
  next
    case False
    then show ?thesis
      using t l inner [of "''categories''"]
      by (auto simp: deleteCategory.simps [of i r s] delete_offline split: sum.splits)
  qed
qed

lemma load_createIncome:
  "load (storage_of (createIncome t r now s)) k = load s k
   \<or> ((\<exists>u. k = coll_key ''incomes'' u)
      \<and> load (storage_of (createIncome t r now s)) k
          = load s k @ [(''id'', JStr (''inc_'' @ string_of_nat now)) # transaction_fields t])"
proof -
  obtain res s1 where tr: "create_try t r s = (res, s1)"
    by (cases "create_try t r s")
  note l = load_create_try [OF tr]
  obtain a s2 where c1: "local_create ''incomes'' ''inc_'' (transaction_fields t) now s = (a, s2)"
    by (cases "local_create ''incomes'' ''inc_'' (transaction_fields t) now s")
  obtain b s3 where c2: "local_create ''incomes'' ''inc_'' (transaction_fields t) now
      (s1\<lparr>backendMode := Some ''offline''\<rparr>) = (b, s3)"
    by (cases "local_create ''incomes'' ''inc_'' (transaction_fields t) now
      (s1\<lparr>backendMode := Some ''offline''\<rparr>)")
  from load_local_create [OF c1, of k] load_local_create [OF c2, of k] l [of k]
  show ?thesis
    using tr c1 c2
    by (auto simp: createIncome_def storage_of_def split: sum.splits)
qed

lemma load_createExpense:
  "load (storage_of (createExpense t r now s)) k = load s k
   \<or> ((\<exists>u. k = coll_key ''expenses'' u)
      \<and> load (storage_of (createExpense t r now s)) k
          = load s k @ [(''id'', JStr (''exp_'' @ string_of_nat now)) # transaction_fields t])"
proof -
  obtain res s1 where tr: "create_try t r s = (res, s1)"
    by (cases "create_try t r s")
  note l = load_create_try [OF tr]
  obtain a s2 where c1: "local_create ''expenses'' ''exp_'' (transaction_fields t) now s = (a, s2)"
    by (cases "local_create ''expenses'' ''exp_'' (transaction_fields t) now s")
  obtain b s3 where c2: "local_create ''expenses'' ''exp_'' (transaction_fields t) now
      (s1\<lparr>backendMode := Some ''offline''\<rparr>) = (b, s3)"
    by (cases "local_create ''expenses'' ''exp_'' (transaction_fields t) now
      (s1\<lparr>backendMode := Some ''offline''\<rparr>)")
  from load_local_create [OF c1, of k] load_local_create [OF c2, of k] l [of k]
  show ?thesis
    using tr c1 c2
    by (auto simp: createExpense_def storage_of_def split: sum.splits)
qed

lemma shrunk_ids:
  assumes "distinct (map f xs @ map f ys)"
  shows "distinct (map f (filter p xs) @ map f (filter q ys))"
proof -
  from assms have dx: "distinct (map f xs)" and dy: "distinct (map f ys)"
    and dj: "f ` set xs \<inter> f ` set ys = {}"
    by auto
  have "f ` set (filter p xs) \<inter> f ` set (filter q ys) = {}"
    using dj by fastforce
  with dx dy show ?thesis
    by (simp add: distinct_map_filter)
qed

lemma ids_filtered:
  assumes inc: "load s' (coll_key ''incomes'' uid) = filter p (load s (coll_key ''incomes'' uid))"
    and exp: "load s' (coll_key ''expenses'' uid) = filter q (load s (coll_key ''expenses'' uid))"
  shows "set (stored_ids s' uid) \<subseteq> set (stored_ids s uid)
       \<and> (distinct (stored_ids s uid) \<longrightarrow> distinct (stored_ids s' uid))"
proof -
  have ids': "stored_ids s' uid
      = map (\<lambda>x. map_of x ''id'') (filter p (load s (coll_key ''incomes'' uid)))
        @ map (\<lambda>x. map_of x ''id'') (filter q (load s (coll_key ''expenses'' uid)))"
    unfolding stored_ids_def inc exp by simp
  have ids: "stored_ids s uid
      = map (\<lambda>x. map_of x ''id'') (load s (coll_key ''incomes'' uid))
        @ map (\<lambda>x. map_of x ''id'') (load s (coll_key ''expenses'' uid))"
    unfolding stored_ids_def by simp
  have sub: "set (stored_ids s' uid) \<subseteq> set (stored_ids s uid)"
    unfolding ids ids' by auto
  have dis: "distinct (stored_ids s uid) \<longrightarrow> distinct (stored_ids s' uid)"
    unfolding ids ids' by (rule impI) (rule shrunk_ids)
  from sub dis show ?thesis ..
qed

lemma ids_shrink:
  assumes "load s' (coll_key ''incomes'' uid) = load s (coll_key ''incomes'' uid)
         \<or> load s' (coll_key ''incomes'' uid) = filter p (load s (coll_key ''incomes'' uid))"
    and "load s' (coll_key ''expenses'' uid) = load s (coll_key ''expenses'' uid)
         \<or> load s' (coll_key ''expenses'' uid) = filter q (load s (coll_key ''expenses'' uid))"
  shows "set (stored_ids s' uid) \<subseteq> set (stored_ids s uid)
       \<and> (distinct (stored_ids s uid) \<longrightarrow> distinct (stored_ids s' uid))"
proof -
  from assms(1) show ?thesis
  proof
    assume i: "load s' (coll_key ''incomes'' uid) = load s (coll_key ''incomes'' uid)"
    from assms(2) show ?thesis
    proof
      assume e: "load s' (coll_key ''expenses'' uid) = load s (coll_key ''expenses'' uid)"
      show ?thesis
        by (rule ids_filtered [where p = "\<lambda>x. True" and q = "\<lambda>x. True"]) (simp_all add: i e)
    next
      assume e: "load s' (coll_key ''expenses'' uid) = filter q (load s (coll_key ''expenses'' uid))"
      show ?thesis
        by (rule ids_filtered [where p = "\<lambda>x. True" and q = q]) (simp_all add: i e)
    qed
  next
    assume i: "load s' (coll_key ''incomes'' uid) = filter p (load s (coll_key ''incomes'' uid))"
    from assms(2) show ?thesis
    proof
      assume e: "load s' (coll_key ''expenses'' uid) = load s (coll_key ''expenses'' uid)"
      show ?thesis
        by (rule ids_filtered [where p = p and q = "\<lambda>x. True"]) (simp_all add: i e)
    next
      assume e: "load s' (coll_key ''expenses'' uid) = filter q (load s (coll_key ''expenses'' uid))"
      show ?thesis
        by (rule ids_filtered [where p = p and q = q]) (simp_all add: i e)
    qed
  qed
qed

lemma ids_same:
  assumes "load s' (coll_key ''incomes'' uid) = load s (coll_key ''incomes'' uid)"
    and "load s' (coll_key ''expenses'' uid) = load s (coll_key ''expenses'' uid)"
  shows "stored_ids s' uid = stored_ids s uid"
  using assms by (simp add: stored_ids_def)

lemma ids_grow_income:
  assumes "load s' (coll_key ''incomes'' uid) = load s (coll_key ''incomes'' uid) @ [new]"
    and "load s' (coll_key ''expenses'' uid) = load s (coll_key ''expenses'' uid)"
    and "map_of new ''id'' = i"
  shows "set (stored_ids s' uid) = insert i (set (stored_ids s uid))"
    and "distinct (stored_ids s uid) \<Longrightarrow> i \<notin> set (stored_ids s uid) \<Longrightarrow> distinct (stored_ids s' uid)"
  using assms by (auto simp: stored_ids_def)

lemma ids_grow_expense:
  assumes "load s' (coll_key ''incomes'' uid) = load s (coll_key ''incomes'' uid)"
    and "load s' (coll_key ''expenses'' uid) = load s (coll_key ''expenses'' uid) @ [new]"
    and "map_of new ''id'' = i"
  shows "set (stored_ids s' uid) = insert i (set (stored_ids s uid))"
    and "distinct (stored_ids s uid) \<Longrightarrow> i \<notin> set (stored_ids s uid) \<Longrightarrow> distinct (stored_ids s' uid)"
  using assms by (auto simp: stored_ids_def)

text \<open>
  What one step does to the stored ids of a user: it adds none but the id of its own
  stamp, and it keeps them distinct when that id is not stored yet.
\<close>

lemma call_ids_same:
  assumes "load (storage_of (call c r now s)) (coll_key ''incomes'' uid) = load s (coll_key ''incomes'' uid)"
    and "load (storage_of (call c r now s)) (coll_key ''expenses'' uid) = load s (coll_key ''expenses'' uid)"
  shows "set (stored_ids (step (Call c r now) s) uid) \<subseteq> set (stored_ids s uid)
       \<and> (distinct (stored_ids s uid) \<longrightarrow> distinct (stored_ids (step (Call c r now) s) uid))"
  using ids_same [OF assms] by simp

lemma step_ids_other:
  assumes "creation_stamp x = None"
  shows "set (stored_ids (step x s) uid) \<subseteq> set (stored_ids s uid)
       \<and> (distinct (stored_ids s uid) \<longrightarrow> distinct (stored_ids (step x s) uid))"
proof (cases x)
  case AppMount
  have "stored_ids (app_mount s) uid = stored_ids s uid"
    by (simp add: stored_ids_def app_mount_def load_def)
  then show ?thesis unfolding AppMount by simp
next
  case ForceOnlineMode
  have "stored_ids (forceOnlineMode s) uid = stored_ids s uid"
    by (simp add: stored_ids_def forceOnlineMode_def load_def)
  then show ?thesis unfolding ForceOnlineMode by simp
next
  case (Call c r now)
  have without: ?thesis if "\<not> has_local_branch c"
    unfolding Call by (rule call_ids_same) (simp_all add: load_without_branch [OF that])
  show ?thesis
  proof (cases c)
    case FetchIncomes
    show ?thesis unfolding Call FetchIncomes
      by (rule call_ids_same) (simp_all add: load_fetchIncomes)
  next
    case FetchExpenses
    show ?thesis unfolding Call FetchExpenses
      by (rule call_ids_same) (simp_all add: load_fetchExpenses)
  next
    case FetchCategories
    show ?thesis unfolding Call FetchCategories
      by (rule call_ids_same) (simp_all add: load_fetchCategories)
  next
    case (CreateCategory cat)
    show ?thesis unfolding Call CreateCategory
      by (rule call_ids_same) (simp_all add: load_createCategory)
  next
    case (UpdateIncome i b)
    show ?thesis by (rule without) (simp add: UpdateIncome)
  next
    case (UpdateExpense i b)
    show ?thesis by (rule without) (simp add: UpdateExpense)
  next
    case (UpdateCategory i b)
    show ?thesis by (rule without) (simp add: UpdateCategory)
  next
    case (FilterTransactions f)
    show ?thesis by (rule without) (simp add: FilterTransactions)
  next
    case (DeleteIncome i)
    have a: "step x s = storage_of (deleteIncome i r s)"
      by (simp add: Call DeleteIncome)
    show ?thesis
      unfolding a
      by (rule ids_shrink [where p = "\<lambda>x. map_of x ''id'' \<noteq> Some (JStr i)"
             and q = "\<lambda>x. map_of x ''id'' \<noteq> Some (JStr i)"]) (rule load_delete)+
  next
    case (DeleteExpense i)
    have a: "step x s = storage_of (deleteExpense i r s)"
      by (simp add: Call DeleteExpense)
    show ?thesis
      unfolding a
      by (rule ids_shrink [where p = "\<lambda>x. map_of x ''id'' \<noteq> Some (JStr i)"
             and q = "\<lambda>x. map_of x ''id'' \<noteq> Some (JStr i)"]) (rule load_delete)+
  next
    case (DeleteCategory i)
    have a: "step x s = storage_of (deleteCategory i r s)"
      by (simp add: Call DeleteCategory)
    show ?thesis
      unfolding a
      by (rule ids_shrink [where p = "\<lambda>x. map_of x ''id'' \<noteq> Some (JStr i)"
             and q = "\<lambda>x. map_of x ''id'' \<noteq> Some (JStr i)"]) (rule load_delete)+
  next
    case (CreateIncome t)
    have False using assms unfolding Call CreateIncome by simp
    then show ?thesis ..
  next
    case (CreateExpense t)
    have False using assms unfolding Call CreateExpense by simp
    then show ?thesis ..
  qed
qed

lemma step_ids_create:
  assumes "creation_stamp x = Some st"
  shows "set (stored_ids (step x s) uid) \<subseteq> insert (stamp_id st) (set (stored_ids s uid))
       \<and> (distinct (stored_ids s uid) \<and> stamp_id st \<notin> set (stored_ids s uid)
            \<longrightarrow> distinct (stored_ids (step x s) uid))"
proof (cases x)
  case AppMount
  have False using assms unfolding AppMount by simp
  then show ?thesis ..
next
  case ForceOnlineMode
  have False using assms unfolding ForceOnlineMode by simp
  then show ?thesis ..
next
  case (Call c r now)
  show ?thesis
  proof (cases c)
    case (CreateIncome t)
    have st: "st = (True, now)" using assms unfolding Call CreateIncome by simp
    have s': "step x s = storage_of (createIncome t r now s)" by (simp add: Call CreateIncome)
    have exp: "load (step x s) (coll_key ''expenses'' uid) = load s (coll_key ''expenses'' uid)"
      using load_createIncome [of t r now s "coll_key ''expenses'' uid"] unfolding s' by simp
    from load_createIncome [of t r now s "coll_key ''incomes'' uid"]
    show ?thesis
    proof
      assume "load (storage_of (createIncome t r now s)) (coll_key ''incomes'' uid)
          = load s (coll_key ''incomes'' uid)"
      then have "load (step x s) (coll_key ''incomes'' uid) = load s (coll_key ''incomes'' uid)"
        unfolding s' .
      then have "stored_ids (step x s) uid = stored_ids s uid"
        using exp by (rule ids_same)
      then show ?thesis by simp blast
    next
      assume "(\<exists>u. coll_key ''incomes'' uid = coll_key ''incomes'' u)
        \<and> load (storage_of (createIncome t r now s)) (coll_key ''incomes'' uid)
          = load s (coll_key ''incomes'' uid)
              @ [(''id'', JStr (''inc_'' @ string_of_nat now)) # transaction_fields t]"
      then have inc: "load (step x s) (coll_key ''incomes'' uid)
          = load s (coll_key ''incomes'' uid)
              @ [(''id'', JStr (''inc_'' @ string_of_nat now)) # transaction_fields t]"
        unfolding s' by (rule conjunct2)
      have i: "map_of ((''id'', JStr (''inc_'' @ string_of_nat now)) # transaction_fields t) ''id''
          = stamp_id st"
        unfolding st by simp
      from ids_grow_income [OF inc exp i] show ?thesis by simp
    qed
  next
    case (CreateExpense t)
    have st: "st = (False, now)" using assms unfolding Call CreateExpense by simp
    have s': "step x s = storage_of (createExpense t r now s)" by (simp add: Call CreateExpense)
    have inc: "load (step x s) (coll_key ''incomes'' uid) = load s (coll_key ''incomes'' uid)"
      using load_createExpense [of t r now s "coll_key ''incomes'' uid"] unfolding s' by simp
    from load_createExpense [of t r now s "coll_key ''expenses'' uid"]
    show ?thesis
    proof
      assume "load (storage_of (createExpense t r now s)) (coll_key ''expenses'' uid)
          = load s (coll_key ''expenses'' uid)"
      then have "load (step x s) (coll_key ''expenses'' uid) = load s (coll_key ''expenses'' uid)"
        unfolding s' .
      with inc have "stored_ids (step x s) uid = stored_ids s uid"
        by (rule ids_same)
      then show ?thesis by simp blast
    next
      assume "(\<exists>u. coll_key ''expenses'' uid = coll_key ''expenses'' u)
        \<and> load (storage_of (createExpense t r now s)) (coll_key ''expenses'' uid)
          = load s (coll_key ''expenses'' uid)
              @ [(''id'', JStr (''exp_'' @ string_of_nat now)) # transaction_fields t]"
      then have exp: "load (step x s) (coll_key ''expenses'' uid)
          = load s (coll_key ''expenses'' uid)
              @ [(''id'', JStr (''exp_'' @ string_of_nat now)) # transaction_fields t]"
        unfolding s' by (rule conjunct2)
      have i: "map_of ((''id'', JStr (''exp_'' @ string_of_nat now)) # transaction_fields t) ''id''
          = stamp_id st"
        unfolding st by simp
      from ids_grow_expense [OF inc exp i] show ?thesis by simp
    qed
  next
    case FetchIncomes
    have False using assms unfolding Call FetchIncomes by simp
    then show ?thesis ..
  next
    case FetchExpenses
    have False using assms unfolding Call FetchExpenses by simp
    then show ?thesis ..
  next
    case FetchCategories
    have False using assms unfolding Call FetchCategories by simp
    then show ?thesis ..
  next
    case (CreateCategory cat)
    have False using assms unfolding Call CreateCategory by simp
    then show ?thesis ..
  next
    case (UpdateIncome i b)
    have False using assms unfolding Call UpdateIncome by simp
    then show ?thesis ..
  next
    case (UpdateExpense i b)
    have False using assms unfolding Call UpdateExpense by simp
    then show ?thesis ..
  next
    case (UpdateCategory i b)
    have False using assms unfolding Call UpdateCategory by simp
    then show ?thesis ..
  next
    case (FilterTransactions f)
    have False using assms unfolding Call FilterTransactions by simp
    then show ?thesis ..
  next
    case (DeleteIncome i)
    have False using assms unfolding Call DeleteIncome by simp
    then show ?thesis ..
  next
    case (DeleteExpense i)
    have False using assms unfolding Call DeleteExpense by simp
    then show ?thesis ..
  next
    case (DeleteCategory i)
    have False using assms unfolding Call DeleteCategory by simp
    then show ?thesis ..
  qed
qed

text \<open>Through a run: the ids stay distinct while each creation that stores a record is new.\<close>

lemma run_ids:
  assumes "distinct (stored_ids s uid)"
    and "distinct (local_stamps uid ops s)"
    and "\<forall>st\<in>set (local_stamps uid ops s). stamp_id st \<notin> set (stored_ids s uid)"
  shows "distinct (stored_ids (run ops s) uid)
       \<and> set (stored_ids (run ops s) uid)
           \<subseteq> set (stored_ids s uid) \<union> stamp_id ` set (local_stamps uid ops s)"
  using assms
proof (induction ops arbitrary: s)
  case Nil
  then show ?case by simp
next
  case (Cons x rest)
  show ?case
  proof (cases "creation_stamp x")
    case None
    have stamps: "local_stamps uid (x # rest) s = local_stamps uid rest (step x s)"
      by (simp add: None)
    note st = step_ids_other [OF None, of s uid]
    have d: "distinct (stored_ids (step x s) uid)"
      using st Cons.prems(1) by blast
    have fresh: "\<forall>st\<in>set (local_stamps uid rest (step x s)).
        stamp_id st \<notin> set (stored_ids (step x s) uid)"
      using st Cons.prems(3) unfolding stamps by blast
    have dr: "distinct (local_stamps uid rest (step x s))"
      using Cons.prems(2) unfolding stamps .
    from Cons.IH [OF d dr fresh] st show ?thesis
      unfolding stamps by (simp only: run.simps) blast
  next
    case (Some a)
    show ?thesis
    proof (cases "stored_ids (step x s) uid = stored_ids s uid")
      case True
      have stamps: "local_stamps uid (x # rest) s = local_stamps uid rest (step x s)"
        by (simp add: Some True)
      have d: "distinct (stored_ids (step x s) uid)"
        using Cons.prems(1) unfolding True .
      have fresh: "\<forall>st\<in>set (local_stamps uid rest (step x s)).
          stamp_id st \<notin> set (stored_ids (step x s) uid)"
        using Cons.prems(3) unfolding stamps True .
      have dr: "distinct (local_stamps uid rest (step x s))"
        using Cons.prems(2) unfolding stamps .
      from Cons.IH [OF d dr fresh] show ?thesis
        unfolding stamps True by (simp only: run.simps)
    next
      case False
      have stamps: "local_stamps uid (x # rest) s = a # local_stamps uid rest (step x s)"
        by (simp add: Some False)
      note st = step_ids_create [OF Some, of s uid]
      have a: "stamp_id a \<notin> set (stored_ids s uid)"
        using Cons.prems(3) unfolding stamps by simp
      have d: "distinct (stored_ids (step x s) uid)"
        using st Cons.prems(1) a by blast
      have dr: "distinct (local_stamps uid rest (step x s))"
        and na: "a \<notin> set (local_stamps uid rest (step x s))"
        using Cons.prems(2) unfolding stamps by simp_all
      have fresh: "\<forall>st\<in>set (local_stamps uid rest (step x s)).
          stamp_id st \<notin> set (stored_ids (step x s) uid)"
      proof
        fix b assume b: "b \<in> set (local_stamps uid rest (step x s))"
        then have "b \<noteq> a" using na by blast
        then have "stamp_id b \<noteq> stamp_id a" using stamp_id_inj by blast
        moreover have "stamp_id b \<notin> set (stored_ids s uid)"
          using Cons.prems(3) b unfolding stamps by simp
        ultimately show "stamp_id b \<notin> set (stored_ids (step x s) uid)"
          using st by blast
      qed
      from Cons.IH [OF d dr fresh] st show ?thesis
        unfolding stamps by (simp only: run.simps) auto
    qed
  qed
qed

text \<open>A creation that the server accepts writes nothing to the Local Store.\<close>

lemma create_remote_storage:
  "\<not> isOfflineMode s \<Longrightarrow> storage_of (createIncome t (Resolved status body) now s) = s"
  "\<not> isOfflineMode s \<Longrightarrow> storage_of (createExpense t (Resolved status body) now s) = s"
  by (simp_all add: createIncome_def createExpense_def create_try_def axios_request_def
        is_network_error_def)

text \<open>What the examples need of their storages.\<close>

lemma save_keeps_login:
  "token (save k xs s) = token s" "currentUser (save k xs s) = currentUser s"
  by (simp_all add: save_def)

lemma app_mount_keeps:
  "getUserId (app_mount s) = getUserId s"
  "load (app_mount s) k = load s k"
  by (simp_all add: app_mount_def getUserId_def load_def)

lemma two_incomes_login:
  "token two_incomes = Some ''jwt''"
  "currentUser two_incomes = Some (JObj [(''id'', JNum 7)])"
  by (simp_all add: two_incomes_def save_def offline_storage_def online_storage_def empty_storage_def)

lemma two_incomes_facts:
  "isOfflineMode two_incomes"
  "getUserId two_incomes = Inr (Some (JNum 7))"
  "load two_incomes k = (if k = ''incomes_7'' then [[(''id'', JStr ''inc_1''), (''amount'', JNum 10)],
                         [(''id'', JStr ''inc_2''), (''amount'', JNum 20)]] else [])"
proof -
  have empty: "load offline_storage k' = []" for k'
    by (simp add: load_def offline_storage_def online_storage_def empty_storage_def)
  show "isOfflineMode two_incomes" "getUserId two_incomes = Inr (Some (JNum 7))"
    by (simp_all add: two_incomes_def offline_storage_facts)
  show "load two_incomes k = (if k = ''incomes_7'' then [[(''id'', JStr ''inc_1''), (''amount'', JNum 10)],
                         [(''id'', JStr ''inc_2''), (''amount'', JNum 20)]] else [])"
    by (simp add: two_incomes_def empty)
qed

text \<open>
  Claim C8, as amended. Take any run of operations, in any mode: listings, creations,
  updates, deletions and filters on incomes, expenses and categories, each with whatever
  the network does, and between them any reload of the application and any forcing of
  remote mode. If the income and expense ids stored for a user are pairwise distinct
  before the run, the creations of the run that store a record for the user differ
  pairwise in kind or in the value read from the clock, and none of the ids made from
  these values is stored before the run, then the ids stored for the user after the run
  are pairwise distinct, and each of them was stored before or is the id of one of these
  creations. A creation in local mode that passes the validation stores its record under
  the prefix of its kind followed by the clock value, after the records already stored.
  (Two creations of one kind at the same clock value get the same id: see the
  counterexample.)
\<close>

theorem local_ids_distinct:
  assumes "distinct (stored_ids s uid)"
    and "distinct (local_stamps uid ops s)"
    and "\<forall>st\<in>set (local_stamps uid ops s). stamp_id st \<notin> set (stored_ids s uid)"
  shows "distinct (stored_ids (run ops s) uid)
       \<and> set (stored_ids (run ops s) uid)
           \<subseteq> set (stored_ids s uid) \<union> stamp_id ` set (local_stamps uid ops s)
       \<and> (isOfflineMode s2 \<and> getUserId s2 = Inr uid2
            \<and> \<not> (categoryId t = 0 \<or> amount t \<le> 0 \<or> date t = []) \<longrightarrow>
            stored_ids (step (Call (CreateIncome t) r now) s2) uid2
              = map (\<lambda>x. map_of x ''id'') (load s2 (coll_key ''incomes'' uid2))
                @ [stamp_id (True, now)]
                @ map (\<lambda>x. map_of x ''id'') (load s2 (coll_key ''expenses'' uid2))
            \<and> stored_ids (step (Call (CreateExpense t) r now) s2) uid2
              = stored_ids s2 uid2 @ [stamp_id (False, now)])"
proof -
  have stored: "stored_ids (step (Call (CreateIncome t) r now) s2) uid2
              = map (\<lambda>x. map_of x ''id'') (load s2 (coll_key ''incomes'' uid2))
                @ [stamp_id (True, now)]
                @ map (\<lambda>x. map_of x ''id'') (load s2 (coll_key ''expenses'' uid2))
            \<and> stored_ids (step (Call (CreateExpense t) r now) s2) uid2
              = stored_ids s2 uid2 @ [stamp_id (False, now)]"
    if "isOfflineMode s2" and "getUserId s2 = Inr uid2"
      and "\<not> (categoryId t = 0 \<or> amount t \<le> 0 \<or> date t = [])"
    using that(3)
    by (simp add: createIncome_offline_storage [OF that(1,2)]
          createExpense_offline_storage [OF that(1,2)] stored_ids_def)
  from run_ids [OF assms] stored show ?thesis by blast
qed

theorem local_ids_distinct_witness:
  "distinct (stored_ids two_incomes (Some (JNum 7)))
   \<and> distinct (local_stamps (Some (JNum 7)) [Call (CreateIncome salary) network_down 1000,
          Call FetchIncomes network_down 1000,
          Call (DeleteIncome ''inc_1'') network_down 1001,
          Call (CreateExpense salary) network_down 1001,
          AppMount,
          Call (CreateIncome salary) (Resolved 201 (JObj [(''id'', JNum 12)])) 1002,
          Call (CreateIncome salary) network_down 1002] two_incomes)
   \<and> map stamp_id [(True, 1000), (False, 1001), (True, 1002)]
       = [Some (JStr ''inc_1000''), Some (JStr ''exp_1001''), Some (JStr ''inc_1002'')]
   \<and> isOfflineMode two_incomes \<and> getUserId two_incomes = Inr (Some (JNum 7))
   \<and> \<not> (categoryId salary = 0 \<or> amount salary \<le> 0 \<or> date salary = [])
   \<and> stored_ids two_incomes (Some (JNum 7)) = [Some (JStr ''inc_1''), Some (JStr ''inc_2'')]
   \<and> local_stamps (Some (JNum 7)) [Call (CreateIncome salary) network_down 1000,
          Call FetchIncomes network_down 1000,
          Call (DeleteIncome ''inc_1'') network_down 1001,
          Call (CreateExpense salary) network_down 1001,
          AppMount,
          Call (CreateIncome salary) (Resolved 201 (JObj [(''id'', JNum 12)])) 1002,
          Call (CreateIncome salary) network_down 1002] two_incomes = [(True, 1000), (False, 1001), (True, 1002)]
   \<and> stored_ids (step (Call (CreateIncome salary) network_down 1000) two_incomes) (Some (JNum 7))
       = [Some (JStr ''inc_1''), Some (JStr ''inc_2''), Some (JStr ''inc_1000'')]
   \<and> stored_ids (run [Call (CreateIncome salary) network_down 1000,
          Call FetchIncomes network_down 1000,
          Call (DeleteIncome ''inc_1'') network_down 1001,
          Call (CreateExpense salary) network_down 1001,
          AppMount,
          Call (CreateIncome salary) (Resolved 201 (JObj [(''id'', JNum 12)])) 1002,
          Call (CreateIncome salary) network_down 1002] two_incomes) (Some (JNum 7))
       = [Some (JStr ''inc_2''), Some (JStr ''inc_1000''), Some (JStr ''inc_1002''),
          Some (JStr ''exp_1001'')]
   \<and> distinct (stored_ids (run [Call (CreateIncome salary) network_down 1000,
          Call FetchIncomes network_down 1000,
          Call (DeleteIncome ''inc_1'') network_down 1001,
          Call (CreateExpense salary) network_down 1001,
          AppMount,
          Call (CreateIncome salary) (Resolved 201 (JObj [(''id'', JNum 12)])) 1002,
          Call (CreateIncome salary) network_down 1002] two_incomes) (Some (JNum 7)))"
proof -
  define s1 where "s1 = step (Call (CreateIncome salary) network_down 1000) two_incomes"
  define s2 where "s2 = step (Call FetchIncomes network_down 1000) s1"
  define s3 where "s3 = step (Call (DeleteIncome ''inc_1'') network_down 1001) s2"
  define s4 where "s4 = step (Call (CreateExpense salary) network_down 1001) s3"
  define s5 where "s5 = step AppMount s4"
  define s6 where "s6 = step (Call (CreateIncome salary) (Resolved 201 (JObj [(''id'', JNum 12)])) 1002) s5"
  define s7 where "s7 = step (Call (CreateIncome salary) network_down 1002) s6"
  have valid: "\<not> (categoryId salary = 0 \<or> amount salary \<le> 0 \<or> date salary = [])"
    by (simp add: salary_def)
  have k: "coll_key kind (Some (JNum 7)) = kind @ ''_7''" for kind
    by (rule offline_storage_facts(3))
  have s1: "isOfflineMode s1" "getUserId s1 = Inr (Some (JNum 7))"
    "load s1 ''incomes_7'' = [[(''id'', JStr ''inc_1''), (''amount'', JNum 10)],
                         [(''id'', JStr ''inc_2''), (''amount'', JNum 20)],
                         (''id'', JStr ''inc_1000'') # transaction_fields salary]"
    "load s1 ''expenses_7'' = []"
    unfolding s1_def
    by (simp_all add: createIncome_offline_storage [OF two_incomes_facts(1,2)] valid k
          two_incomes_facts string_of_nat.simps digit_char_def)
  have l1: "token s1 = Some ''jwt''" "currentUser s1 = Some (JObj [(''id'', JNum 7)])"
    unfolding s1_def
    by (simp_all add: createIncome_offline_storage [OF two_incomes_facts(1,2)] valid
          save_keeps_login two_incomes_login)
  have s2: "s2 = s1"
    unfolding s2_def by (simp add: local_listing(1) [OF s1(1,2)])
  have s3: "isOfflineMode s3" "getUserId s3 = Inr (Some (JNum 7))"
    "load s3 ''incomes_7'' = [[(''id'', JStr ''inc_2''), (''amount'', JNum 20)],
                         (''id'', JStr ''inc_1000'') # transaction_fields salary]"
    "load s3 ''expenses_7'' = []"
    unfolding s3_def s2
    by (simp_all add: local_deleting(1) [OF s1(1,2)] k s1)
  have l3: "token s3 = Some ''jwt''" "currentUser s3 = Some (JObj [(''id'', JNum 7)])"
    unfolding s3_def s2
    by (simp_all add: local_deleting(1) [OF s1(1,2)] save_keeps_login l1)
  have s4: "isOfflineMode s4" "getUserId s4 = Inr (Some (JNum 7))"
    "load s4 ''incomes_7'' = [[(''id'', JStr ''inc_2''), (''amount'', JNum 20)],
                         (''id'', JStr ''inc_1000'') # transaction_fields salary]"
    "load s4 ''expenses_7'' = [(''id'', JStr ''exp_1001'') # transaction_fields salary]"
    unfolding s4_def
    by (simp_all add: createExpense_offline_storage [OF s3(1,2)] valid k s3
          string_of_nat.simps digit_char_def)
  have l4: "token s4 = Some ''jwt''" "currentUser s4 = Some (JObj [(''id'', JNum 7)])"
    unfolding s4_def
    by (simp_all add: createExpense_offline_storage [OF s3(1,2)] valid save_keeps_login l3)
  have signed_in: "(\<exists>t. token s4 = Some t \<and> t \<noteq> []) \<and> currentUser s4 \<noteq> None"
    by (simp add: l4)
  have s5: "\<not> isOfflineMode s5" "getUserId s5 = Inr (Some (JNum 7))"
    "load s5 ''incomes_7'' = load s4 ''incomes_7''"
    "load s5 ''expenses_7'' = load s4 ''expenses_7''"
    unfolding s5_def by (simp_all add: mode_resets(2) [OF signed_in] app_mount_keeps s4)
  have s6: "s6 = s5"
    unfolding s6_def by (simp add: create_remote_storage(1) [OF s5(1)])
  have net: "Some ''ERR_NETWORK'' = Some ''ERR_NETWORK'' \<or> ''Network Error'' = ''Network Error''"
    by simp
  have again: "isOfflineMode (s5\<lparr>backendMode := Some ''offline''\<rparr>)"
     "getUserId (s5\<lparr>backendMode := Some ''offline''\<rparr>) = Inr (Some (JNum 7))"
    by (simp_all add: s5)
  have s7: "load s7 ''incomes_7'' = [[(''id'', JStr ''inc_2''), (''amount'', JNum 20)],
                         (''id'', JStr ''inc_1000'') # transaction_fields salary,
                         (''id'', JStr ''inc_1002'') # transaction_fields salary]"
    "load s7 ''expenses_7'' = [(''id'', JStr ''exp_1001'') # transaction_fields salary]"
    unfolding s7_def s6
    by (simp_all add: network_down_def
          create_network(1) [OF s5(1) net valid, where r' = "Resolved 200 (JObj [])"]
          createIncome_offline_storage [OF again] valid k s5 s4
          string_of_nat.simps digit_char_def)
  have ran: "run [Call (CreateIncome salary) network_down 1000,
          Call FetchIncomes network_down 1000,
          Call (DeleteIncome ''inc_1'') network_down 1001,
          Call (CreateExpense salary) network_down 1001,
          AppMount,
          Call (CreateIncome salary) (Resolved 201 (JObj [(''id'', JNum 12)])) 1002,
          Call (CreateIncome salary) network_down 1002] two_incomes = s7"
    unfolding s7_def s6_def s5_def s4_def s3_def s2_def s1_def by (simp only: run.simps)
  have ids: "stored_ids (run [Call (CreateIncome salary) network_down 1000,
          Call FetchIncomes network_down 1000,
          Call (DeleteIncome ''inc_1'') network_down 1001,
          Call (CreateExpense salary) network_down 1001,
          AppMount,
          Call (CreateIncome salary) (Resolved 201 (JObj [(''id'', JNum 12)])) 1002,
          Call (CreateIncome salary) network_down 1002] two_incomes) (Some (JNum 7))
       = [Some (JStr ''inc_2''), Some (JStr ''inc_1000''), Some (JStr ''inc_1002''),
          Some (JStr ''exp_1001'')]"
    unfolding ran by (simp add: stored_ids_def k s7)
  have before: "stored_ids two_incomes (Some (JNum 7)) = [Some (JStr ''inc_1''), Some (JStr ''inc_2'')]"
    by (simp add: stored_ids_def k two_incomes_facts)
  have d0: "distinct (stored_ids two_incomes (Some (JNum 7)))"
    unfolding before by simp
  have i1: "stored_ids s1 (Some (JNum 7))
      = [Some (JStr ''inc_1''), Some (JStr ''inc_2''), Some (JStr ''inc_1000'')]"
    by (simp add: stored_ids_def k s1)
  have i3: "stored_ids s3 (Some (JNum 7)) = [Some (JStr ''inc_2''), Some (JStr ''inc_1000'')]"
    by (simp add: stored_ids_def k s3)
  have i4: "stored_ids s4 (Some (JNum 7))
      = [Some (JStr ''inc_2''), Some (JStr ''inc_1000''), Some (JStr ''exp_1001'')]"
    by (simp add: stored_ids_def k s4)
  have i5: "stored_ids s5 (Some (JNum 7))
      = [Some (JStr ''inc_2''), Some (JStr ''inc_1000''), Some (JStr ''exp_1001'')]"
    by (simp add: stored_ids_def k s5 s4)
  have i7: "stored_ids s7 (Some (JNum 7))
      = [Some (JStr ''inc_2''), Some (JStr ''inc_1000''), Some (JStr ''inc_1002''),
         Some (JStr ''exp_1001'')]"
    by (simp add: stored_ids_def k s7)
  have steps: "step (Call (CreateIncome salary) network_down 1000) two_incomes = s1"
    "step (Call FetchIncomes network_down 1000) s1 = s2"
    "step (Call (DeleteIncome ''inc_1'') network_down 1001) s2 = s3"
    "step (Call (CreateExpense salary) network_down 1001) s3 = s4"
    "step AppMount s4 = s5"
    "step (Call (CreateIncome salary) (Resolved 201 (JObj [(''id'', JNum 12)])) 1002) s5 = s6"
    "step (Call (CreateIncome salary) network_down 1002) s6 = s7"
    by (simp_all only: s1_def s2_def s3_def s4_def s5_def s6_def s7_def)
  have stamps: "local_stamps (Some (JNum 7)) [Call (CreateIncome salary) network_down 1000,
          Call FetchIncomes network_down 1000,
          Call (DeleteIncome ''inc_1'') network_down 1001,
          Call (CreateExpense salary) network_down 1001,
          AppMount,
          Call (CreateIncome salary) (Resolved 201 (JObj [(''id'', JNum 12)])) 1002,
          Call (CreateIncome salary) network_down 1002] two_incomes
      = [(True, 1000), (False, 1001), (True, 1002)]"
    by (simp add: steps before i1 i3 i4 i5 [unfolded s6 [symmetric]] i5 i7 del: step.simps)
  have d1: "distinct (local_stamps (Some (JNum 7)) [Call (CreateIncome salary) network_down 1000,
          Call FetchIncomes network_down 1000,
          Call (DeleteIncome ''inc_1'') network_down 1001,
          Call (CreateExpense salary) network_down 1001,
          AppMount,
          Call (CreateIncome salary) (Resolved 201 (JObj [(''id'', JNum 12)])) 1002,
          Call (CreateIncome salary) network_down 1002] two_incomes)"
    unfolding stamps by simp
  have fresh: "\<forall>st\<in>set (local_stamps (Some (JNum 7)) [Call (CreateIncome salary) network_down 1000,
          Call FetchIncomes network_down 1000,
          Call (DeleteIncome ''inc_1'') network_down 1001,
          Call (CreateExpense salary) network_down 1001,
          AppMount,
          Call (CreateIncome salary) (Resolved 201 (JObj [(''id'', JNum 12)])) 1002,
          Call (CreateIncome salary) network_down 1002] two_incomes).
         stamp_id st \<notin> set (stored_ids two_incomes (Some (JNum 7)))"
    unfolding stamps before by (simp add: string_of_nat.simps digit_char_def)
  note T = local_ids_distinct [OF d0 d1 fresh, where ?s2.0 = two_incomes
      and ?uid2.0 = "Some (JNum 7)" and t = salary and r = network_down and now = 1000]
  have d: "distinct (stored_ids (run [Call (CreateIncome salary) network_down 1000,
          Call FetchIncomes network_down 1000,
          Call (DeleteIncome ''inc_1'') network_down 1001,
          Call (CreateExpense salary) network_down 1001,
          AppMount,
          Call (CreateIncome salary) (Resolved 201 (JObj [(''id'', JNum 12)])) 1002,
          Call (CreateIncome salary) network_down 1002] two_incomes) (Some (JNum 7)))"
    using T by blast
  have "stored_ids (step (Call (CreateIncome salary) network_down 1000) two_incomes) (Some (JNum 7))
      = map (\<lambda>x. map_of x ''id'') (load two_incomes (coll_key ''incomes'' (Some (JNum 7))))
        @ [stamp_id (True, 1000)]
        @ map (\<lambda>x. map_of x ''id'') (load two_incomes (coll_key ''expenses'' (Some (JNum 7))))"
    using T two_incomes_facts(1,2) valid by blast
  then have one: "stored_ids (step (Call (CreateIncome salary) network_down 1000) two_incomes) (Some (JNum 7))
       = [Some (JStr ''inc_1''), Some (JStr ''inc_2''), Some (JStr ''inc_1000'')]"
    by (simp add: k two_incomes_facts string_of_nat.simps digit_char_def)
  have made: "map stamp_id [(True, 1000), (False, 1001), (True, 1002)]
       = [Some (JStr ''inc_1000''), Some (JStr ''exp_1001''), Some (JStr ''inc_1002'')]"
    by (simp add: string_of_nat.simps digit_char_def)
  show ?thesis
    using d0 d1 made two_incomes_facts(1,2) valid before stamps one ids d by blast
qed

text \<open>
  Counterexample to claim C8 as stated: two incomes created in succession in local mode,
  both reading the same millisecond from the clock, are stored with the same id.
\<close>

theorem local_ids_distinct_counterexample:
  "isOfflineMode offline_storage
   \<and> stored_ids (run [Call (CreateIncome salary) network_down 1700000000000,
                      Call (CreateIncome salary) network_down 1700000000000] offline_storage)
        (Some (JNum 7))
       = [Some (JStr ''inc_1700000000000''), Some (JStr ''inc_1700000000000'')]
   \<and> \<not> distinct (stored_ids (run [Call (CreateIncome salary) network_down 1700000000000,
                      Call (CreateIncome salary) network_down 1700000000000] offline_storage)
        (Some (JNum 7)))"
proof -
  have empty: "load offline_storage k = []" for k
    by (simp add: load_def offline_storage_def online_storage_def empty_storage_def)
  have ids: "stored_ids (run [Call (CreateIncome salary) network_down 1700000000000,
                      Call (CreateIncome salary) network_down 1700000000000] offline_storage)
        (Some (JNum 7))
       = [Some (JStr ''inc_1700000000000''), Some (JStr ''inc_1700000000000'')]"
    by (simp add: createIncome_offline_storage offline_storage_facts
          salary_def stored_ids_def empty string_of_nat.simps digit_char_def)
  show ?thesis
    unfolding ids using offline_storage_facts(1) by simp
qed

end
